theory Spec2Isabelle
  imports Main "HOL-Library.Word"
begin

section \<open>The Kineto profiler session core (torch/csrc/autograd/profiler\_kineto.cpp)\<close>

text \<open>
  A shallow embedding of the functions of \<^verbatim>\<open>profiler_kineto.cpp\<close>: the correlation id
  generator, the per-thread profiling state with its event capture, the metadata
  serializers, session start and stop, and \<^verbatim>\<open>ProfilerResult::save\<close>. The branch of the
  file that is modelled is the one compiled with \<^verbatim>\<open>USE_KINETO\<close> and
  \<^verbatim>\<open>USE_KINETO_UPDATED\<close>.

  \<^verbatim>\<open>prepareProfiler\<close>, \<^verbatim>\<open>reportMemoryUsage\<close>, \<^verbatim>\<open>addMetadata\<close> and
  \<^verbatim>\<open>KinetoEvent::deviceType\<close> play no part in the properties below and are left out.

  Exceptions are values of type \<open>error\<close>; every function that mutates shared state takes
  the state and returns it, also on its failing paths, so that what a failing call leaves
  behind is part of the model.
\<close>

subsection \<open>Machine integers and errors\<close>

type_synonym uint64_t = "64 word"
type_synonym int64_t = "64 word"  \<comment> \<open>read through \<open>sint\<close> where the sign matters\<close>

text \<open>
  \<^verbatim>\<open>TORCH_CHECK\<close> raises a checked error carrying its message,
  \<^verbatim>\<open>TORCH_INTERNAL_ASSERT\<close> is the fatal internal assertion, and
  \<open>UndefinedBehaviour\<close> stands for a library call outside its precondition
  (\<^verbatim>\<open>std::string::pop_back\<close> on an empty string).
\<close>

datatype error =
    CheckFailed string
  | InternalAssertFailed string
  | UndefinedBehaviour

subsection \<open>Decimal output of integers\<close>

text \<open>\<^verbatim>\<open>operator<<\<close> on \<^verbatim>\<open>int64_t\<close> and \<^verbatim>\<open>std::to_string\<close> print decimal digits.\<close>

definition digit_char :: "nat \<Rightarrow> char" where
  "digit_char d = ''0123456789'' ! (d mod 10)"

fun show_nat :: "nat \<Rightarrow> string" where
  "show_nat n = (if n < 10 then [digit_char n] else show_nat (n div 10) @ [digit_char n])"

declare show_nat.simps [simp del]

definition show_int :: "int \<Rightarrow> string" where
  "show_int i = (if i < 0 then CHR ''-'' # show_nat (nat (- i)) else show_nat (nat i))"

definition to_string_int64 :: "int64_t \<Rightarrow> string" where
  "to_string_int64 x = show_int (sint x)"

definition to_string_uint64 :: "uint64_t \<Rightarrow> string" where
  "to_string_uint64 x = show_nat (unat x)"

subsection \<open>The metadata serializers\<close>

text \<open>
  \<^verbatim>\<open>shapesToStr\<close>: two nested index loops writing to an output stream; a separator
  \<^verbatim>\<open>", "\<close> is written before every element but the first.
\<close>

function shape_loop :: "int64_t list \<Rightarrow> nat \<Rightarrow> string \<Rightarrow> string" where
  "shape_loop shape s_idx oss =
     (if s_idx < length shape
      then shape_loop shape (s_idx + 1)
             ((if s_idx > 0 then oss @ '', '' else oss) @ to_string_int64 (shape ! s_idx))
      else oss)"
  by pat_completeness auto
termination
  by (relation "measure (\<lambda>(shape, s_idx, oss). length shape - s_idx)") auto

declare shape_loop.simps [simp del]

function shapes_loop :: "int64_t list list \<Rightarrow> nat \<Rightarrow> string \<Rightarrow> string" where
  "shapes_loop shapes t_idx oss =
     (if t_idx < length shapes
      then shapes_loop shapes (t_idx + 1)
             (shape_loop (shapes ! t_idx) 0 ((if t_idx > 0 then oss @ '', '' else oss) @ ''['')
                @ '']'')
      else oss)"
  by pat_completeness auto
termination
  by (relation "measure (\<lambda>(shapes, t_idx, oss). length shapes - t_idx)") auto

declare shapes_loop.simps [simp del]

definition shapesToStr :: "int64_t list list \<Rightarrow> string" where
  "shapesToStr shapes = shapes_loop shapes 0 ''['' @ '']''"

text \<open>
  \<^verbatim>\<open>dtypesToStr\<close>: \<^verbatim>\<open>std::transform\<close> into an \<^verbatim>\<open>ostream_iterator\<close> with delimiter
  \<^verbatim>\<open>", "\<close> writes every quoted name followed by the delimiter; \<^verbatim>\<open>rc.erase(rc.length() - 2)\<close>
  then drops everything from that position on.
\<close>

definition dquote :: string where
  "dquote = [CHR 0x22]"

definition dtypesToStr :: "string list \<Rightarrow> string" where
  "dtypesToStr types =
     (if types = [] then ''[]''
      else let rc = concat (map (\<lambda>s. (dquote @ s @ dquote) @ '', '') types);
               rc = take (length rc - 2) rc
           in ''['' @ rc @ '']'')"

text \<open>
  \<^verbatim>\<open>stacksToStr\<close>: \<^verbatim>\<open>std::copy\<close> into an \<^verbatim>\<open>ostream_iterator\<close> with delimiter
  \<^verbatim>\<open>";"\<close>, then \<^verbatim>\<open>rc.pop_back()\<close>, which has no guard: on an empty string it is undefined.
\<close>

definition pop_back :: "string \<Rightarrow> error + string" where
  "pop_back rc = (if rc = [] then Inl UndefinedBehaviour else Inr (butlast rc))"

definition stacksToStr :: "string list \<Rightarrow> error + string" where
  "stacksToStr stacks = pop_back (concat (map (\<lambda>s. s @ '';'') stacks))"

subsection \<open>Activities of the trace collector\<close>

text \<open>
  \<^verbatim>\<open>libkineto::ActivityType\<close>, with the six kinds the file names, and the interface
  \<^verbatim>\<open>libkineto::TraceActivity\<close> as the values its accessors return; \<open>ta_linkedActivity\<close> is
  the pointer \<^verbatim>\<open>linkedActivity()\<close>, \<open>None\<close> for the null pointer. The widths of the
  collector's integer fields are not in this file; all of them are 64-bit words here.
\<close>

datatype KActivityType =
    CPU_OP
  | GPU_MEMCPY
  | GPU_MEMSET
  | CONCURRENT_KERNEL
  | EXTERNAL_CORRELATION
  | CUDA_RUNTIME

datatype TraceActivity =
  TraceActivity
    (ta_name: string)
    (ta_deviceId: int64_t)
    (ta_resourceId: int64_t)
    (ta_timestamp: int64_t)
    (ta_duration: int64_t)
    (ta_correlationId: int64_t)
    (ta_type: KActivityType)
    (ta_linkedActivity: "TraceActivity option")

text \<open>
  \<^verbatim>\<open>libkineto::GenericTraceActivity\<close>, the struct \<open>reportClientActivity\<close> fills in;
  \<^verbatim>\<open>addMetadata(key, value)\<close> appends to \<open>metadata\<close>.
\<close>

record GenericTraceActivity =
  activityType :: KActivityType
  activityName :: string
  startTime :: int64_t
  endTime :: int64_t
  device :: int64_t
  correlation :: int64_t
  sysThreadId :: int64_t
  metadata :: "(string \<times> string) list"

definition GenericTraceActivity_ctor :: GenericTraceActivity where
  "GenericTraceActivity_ctor =
     \<lparr>activityType = CPU_OP, activityName = [], startTime = 0, endTime = 0, device = 0,
      correlation = 0, sysThreadId = 0, metadata = []\<rparr>"

definition addMetadata :: "string \<Rightarrow> string \<Rightarrow> GenericTraceActivity \<Rightarrow> GenericTraceActivity" where
  "addMetadata key val a = a\<lparr>metadata := metadata a @ [(key, val)]\<rparr>"

text \<open>A \<open>GenericTraceActivity\<close> seen through the \<open>TraceActivity\<close> interface; it links to nothing.\<close>

definition as_TraceActivity :: "GenericTraceActivity \<Rightarrow> TraceActivity" where
  "as_TraceActivity op =
     TraceActivity (activityName op) (device op) (sysThreadId op) (startTime op)
       (endTime op - startTime op) (correlation op) (activityType op) None"

record CpuTraceBuffer =
  span_name :: string
  span_startTime :: int64_t
  span_endTime :: int64_t
  gpuOpCount :: int64_t
  activities :: "GenericTraceActivity list"

definition CpuTraceBuffer_ctor :: CpuTraceBuffer where
  "CpuTraceBuffer_ctor =
     \<lparr>span_name = [], span_startTime = 0, span_endTime = 0, gpuOpCount = 0, activities = []\<rparr>"

subsection \<open>Captured events\<close>

datatype RecordScope =
    FUNCTION
  | BACKWARD_FUNCTION
  | TORCHSCRIPT_FUNCTION
  | KERNEL_FUNCTION_DTYPE
  | USER_SCOPE

text \<open>
  \<^verbatim>\<open>KinetoEvent\<close>. Its members and their initial values are those of the class
  declaration (the member \<^verbatim>\<open>shapes_\<close> is the field \<open>ke_shapes\<close>, and so on); the
  constructor at the end of the file sets \<open>ke_activity_type\<close> to \<open>CPU_OP\<close>. The two
  \<^verbatim>\<open>uint8_t\<close> members hold casts of enumeration values and are kept as the enumerations.
\<close>

record KinetoEvent =
  ke_start_thread_id :: uint64_t
  ke_end_thread_id :: uint64_t
  ke_fwd_thread_id :: uint64_t
  ke_sequence_nr :: int64_t
  ke_scope :: RecordScope
  ke_activity_type :: KActivityType
  ke_shapes :: "int64_t list list option"
  ke_stack :: "string list option"
  ke_dtypes :: "string list option"
  ke_flops :: uint64_t
  ke_name :: string
  ke_device_index :: uint64_t
  ke_start_us :: uint64_t
  ke_duration_us :: uint64_t
  ke_correlation_id :: uint64_t
  ke_linked_correlation_id :: uint64_t
  ke_device_resource_id :: int64_t
  ke_is_async :: bool

definition KinetoEvent_ctor :: KinetoEvent where
  "KinetoEvent_ctor =
     \<lparr>ke_start_thread_id = 0, ke_end_thread_id = 0, ke_fwd_thread_id = 0, ke_sequence_nr = - 1,
      ke_scope = FUNCTION, ke_activity_type = CPU_OP, ke_shapes = None, ke_stack = None,
      ke_dtypes = None, ke_flops = 0, ke_name = [], ke_device_index = 0, ke_start_us = 0,
      ke_duration_us = 0, ke_correlation_id = 0, ke_linked_correlation_id = 0,
      ke_device_resource_id = 0, ke_is_async = False\<rparr>"

definition hasShapes :: "KinetoEvent \<Rightarrow> bool" where
  "hasShapes e = (ke_shapes e \<noteq> None)"

definition hasStack :: "KinetoEvent \<Rightarrow> bool" where
  "hasStack e = (ke_stack e \<noteq> None)"

definition hasTypes :: "KinetoEvent \<Rightarrow> bool" where
  "hasTypes e = (ke_dtypes e \<noteq> None)"

text \<open>
  \<^verbatim>\<open>KinetoEvent::activity\<close>: copies the activity into the event. The correlation id is
  assigned in the \<open>CPU_OP\<close> branch only, the linked correlation id only under a non-null
  \<^verbatim>\<open>linkedActivity()\<close>; otherwise the members keep the values they had.
\<close>

definition activity :: "TraceActivity \<Rightarrow> KinetoEvent \<Rightarrow> KinetoEvent" where
  "activity a e =
     (let e = e\<lparr>ke_name := ta_name a,
                ke_device_index := ta_deviceId a,
                ke_device_resource_id := ta_resourceId a,
                ke_start_us := ta_timestamp a,
                ke_duration_us := ta_duration a\<rparr>;
          e = (if ta_type a = CPU_OP then e\<lparr>ke_correlation_id := ta_correlationId a\<rparr> else e);
          e = e\<lparr>ke_activity_type := ta_type a\<rparr>
      in case ta_linkedActivity a of
           Some linked \<Rightarrow> e\<lparr>ke_linked_correlation_id := ta_correlationId linked\<rparr>
         | None \<Rightarrow> e)"

subsection \<open>Instrumented operations and their contexts\<close>

text \<open>
  What the callbacks read from an \<^verbatim>\<open>at::RecordFunction\<close>. The inputs are kept as far as
  \<open>inputTypes\<close> inspects them; the results of the helpers that live outside this file
  (\<^verbatim>\<open>inputSizes\<close>, \<^verbatim>\<open>saveExtraArgs\<close> with \<^verbatim>\<open>computeFlops\<close>, and the two call stacks after
  \<^verbatim>\<open>prepareCallstack\<close> and \<^verbatim>\<open>callstackStr\<close>) are fields of the operation.
\<close>

datatype IValue =
    Tensor bool string  \<comment> \<open>\<^verbatim>\<open>defined()\<close> and the name of the dtype\<close>
  | Scalar string       \<comment> \<open>\<^verbatim>\<open>tagKind()\<close>\<close>
  | ListValue string    \<comment> \<open>\<^verbatim>\<open>tagKind()\<close>\<close>
  | OtherValue

record RecordFunction =
  fn_name :: string
  fn_inputs :: "IValue list"
  fn_inputSizes :: "int64_t list list"
  fn_seqNr :: int64_t
  fn_forwardThreadId :: uint64_t
  fn_scope :: RecordScope
  fn_isAsync :: bool
  fn_extraArgs :: "string list"
  fn_flops :: uint64_t
  fn_currentCallstack :: "string list"
  fn_pythonCallstack :: "string list"

fun inputType :: "IValue \<Rightarrow> string" where
  "inputType (Tensor defined dtype_name) = (if defined then dtype_name else [])"
| "inputType (Scalar kind) = kind"
| "inputType (ListValue kind) = kind"
| "inputType OtherValue = []"

definition inputTypes :: "RecordFunction \<Rightarrow> string list" where
  "inputTypes fn = map inputType (fn_inputs fn)"

text \<open>
  \<^verbatim>\<open>KinetoObserverContext\<close>; \<open>KinetoObserverContext_ctor\<close> is the value-initialised object
  that \<^verbatim>\<open>std::make_unique<KinetoObserverContext>()\<close> builds, which the start callback
  returns unchanged on its disabled path.
\<close>

record KinetoObserverContext =
  startUs :: int64_t
  correlationId :: uint64_t
  startThreadId :: uint64_t
  endThreadId :: uint64_t
  shapes :: "int64_t list list option"
  dtypes :: "string list option"
  sequenceNr :: int64_t
  fwdThreadId :: uint64_t
  recFunScope :: RecordScope
  stack :: "string list option"
  extraArgs :: "string list option"

definition KinetoObserverContext_ctor :: KinetoObserverContext where
  "KinetoObserverContext_ctor =
     \<lparr>startUs = 0, correlationId = 0, startThreadId = 0, endThreadId = 0, shapes = None,
      dtypes = None, sequenceNr = 0, fwdThreadId = 0, recFunScope = FUNCTION, stack = None,
      extraArgs = None\<rparr>"

subsection \<open>The per-thread profiling state\<close>

datatype ProfilerState = Disabled | CPU | CUDA | NVTX | KINETO

record ProfilerConfig =
  state :: ProfilerState
  report_input_shapes :: bool
  profile_memory :: bool
  with_stack :: bool
  with_flops :: bool

datatype ActivityType = ActivityType_CPU | ActivityType_CUDA

datatype EventKind = Mark | PushRange | PopRange | MemoryAlloc

text \<open>
  \<^verbatim>\<open>KinetoThreadLocalState\<close> with the members of its base class
  \<^verbatim>\<open>ProfilerThreadLocalState\<close> that this file uses: the configuration, the callback handle
  and the legacy event list (thread id, kind, name). The trace buffer is held by value:
  the file dereferences the owning pointer only before it is moved out.
\<close>

record KinetoThreadLocalState =
  config :: ProfilerConfig
  callback_handle :: "uint64_t option"
  event_lists :: "(uint64_t \<times> EventKind \<times> string) list"
  kineto_events :: "KinetoEvent list"
  cpu_trace :: CpuTraceBuffer

definition KinetoThreadLocalState_ctor :: "ProfilerConfig \<Rightarrow> KinetoThreadLocalState" where
  "KinetoThreadLocalState_ctor cfg =
     \<lparr>config = cfg, callback_handle = None, event_lists = [], kineto_events = [],
      cpu_trace = CpuTraceBuffer_ctor\<rparr>"

text \<open>
  Modelled from the spec: \<^verbatim>\<open>ProfilerThreadLocalState::mark\<close> and \<^verbatim>\<open>consolidate\<close> are
  declared outside this file. The spec has \<open>enable\<close> and \<open>disable\<close> emit a synthetic
  marker event and the result carry the legacy per-context event list; a marker is
  recorded unless the state is \<open>Disabled\<close>.
\<close>

definition mark :: "string \<Rightarrow> uint64_t \<Rightarrow> KinetoThreadLocalState \<Rightarrow> KinetoThreadLocalState" where
  "mark name t s =
     (if state (config s) = Disabled then s
      else s\<lparr>event_lists := event_lists s @ [(t, Mark, name)]\<rparr>)"

definition consolidate :: "KinetoThreadLocalState \<Rightarrow> (uint64_t \<times> EventKind \<times> string) list" where
  "consolidate s = event_lists s"

subsection \<open>The trace collector and the process state\<close>

text \<open>
  What the file uses of \<^verbatim>\<open>libkineto::api().activityProfiler()\<close>: the per-thread stack of
  correlation ids, the threads announced by \<^verbatim>\<open>recordThreadInfo\<close>, whether a trace is
  running, and the CPU trace buffers handed over.
\<close>

record ActivityProfiler =
  correlation_ids :: "uint64_t \<Rightarrow> uint64_t list"
  thread_infos :: "uint64_t list"
  tracing :: bool
  cpu_traces :: "CpuTraceBuffer list"

definition pushCorrelationId :: "uint64_t \<Rightarrow> uint64_t \<Rightarrow> ActivityProfiler \<Rightarrow> ActivityProfiler" where
  "pushCorrelationId t cid k = k\<lparr>correlation_ids := (correlation_ids k)(t := cid # correlation_ids k t)\<rparr>"

definition popCorrelationId :: "uint64_t \<Rightarrow> ActivityProfiler \<Rightarrow> ActivityProfiler" where
  "popCorrelationId t k = k\<lparr>correlation_ids := (correlation_ids k)(t := tl (correlation_ids k t))\<rparr>"

definition recordThreadInfo :: "uint64_t \<Rightarrow> ActivityProfiler \<Rightarrow> ActivityProfiler" where
  "recordThreadInfo t k = k\<lparr>thread_infos := thread_infos k @ [t]\<rparr>"

definition startTrace :: "ActivityProfiler \<Rightarrow> ActivityProfiler" where
  "startTrace k = k\<lparr>tracing := True\<rparr>"

definition transferCpuTrace :: "CpuTraceBuffer \<Rightarrow> ActivityProfiler \<Rightarrow> ActivityProfiler" where
  "transferCpuTrace b k = k\<lparr>cpu_traces := cpu_traces k @ [b]\<rparr>"

definition stopTrace :: "ActivityProfiler \<Rightarrow> ActivityProfiler" where
  "stopTrace k = k\<lparr>tracing := False\<rparr>"

text \<open>
  The state shared by the functions of the file. A logical execution context is a thread
  id. \<open>debug_info t\<close> is the stack of profiler states published on thread \<open>t\<close> under
  \<^verbatim>\<open>DebugInfoKind::PROFILER_STATE\<close>, the active one first; \<open>tl_callbacks t\<close> are the
  thread-local callbacks registered there, each a handle with its \<^verbatim>\<open>needsInputs\<close> flag;
  \<open>corr_id\<close> is the static atomic counter of \<open>next_correlation_id\<close>.
\<close>

record World =
  debug_info :: "uint64_t \<Rightarrow> KinetoThreadLocalState list"
  tl_callbacks :: "uint64_t \<Rightarrow> (uint64_t \<times> bool) list"
  next_callback_handle :: uint64_t
  corr_id :: uint64_t
  kineto :: ActivityProfiler

definition initial_World :: World where
  "initial_World =
     \<lparr>debug_info = (\<lambda>t. []), tl_callbacks = (\<lambda>t. []), next_callback_handle = 1, corr_id = 1,
      kineto = \<lparr>correlation_ids = (\<lambda>t. []), thread_infos = [], tracing = False,
                cpu_traces = []\<rparr>\<rparr>"

text \<open>
  Modelled from the spec: \<^verbatim>\<open>c10::ThreadLocalDebugInfo\<close> (\<^verbatim>\<open>get\<close>, \<^verbatim>\<open>_push\<close>, \<^verbatim>\<open>_pop\<close>) and the
  callback registry (\<^verbatim>\<open>at::addThreadLocalCallback\<close>, \<^verbatim>\<open>at::removeCallback\<close>) are declared
  outside this file. The spec has a context-local debug-info slot in which \<open>enable\<close>
  publishes the state as the context's active object and from which \<open>disable\<close> pops it, and
  a registry that hands out a handle on registration and removes by handle. Only states
  published under \<^verbatim>\<open>PROFILER_STATE\<close> are in the slot. A pop with nothing published yields
  the null pointer, which is the case \<open>disableProfiler\<close> tests for with \<^verbatim>\<open>state_ptr &&\<close>.
\<close>

definition ThreadLocalDebugInfo_get :: "uint64_t \<Rightarrow> World \<Rightarrow> KinetoThreadLocalState option" where
  "ThreadLocalDebugInfo_get t w = (case debug_info w t of [] \<Rightarrow> None | s # rest \<Rightarrow> Some s)"

definition ThreadLocalDebugInfo_push :: "uint64_t \<Rightarrow> KinetoThreadLocalState \<Rightarrow> World \<Rightarrow> World" where
  "ThreadLocalDebugInfo_push t s w = w\<lparr>debug_info := (debug_info w)(t := s # debug_info w t)\<rparr>"

definition ThreadLocalDebugInfo_pop :: "uint64_t \<Rightarrow> World \<Rightarrow> KinetoThreadLocalState option \<times> World" where
  "ThreadLocalDebugInfo_pop t w =
     (case debug_info w t of
        [] \<Rightarrow> (None, w)
      | s # rest \<Rightarrow> (Some s, w\<lparr>debug_info := (debug_info w)(t := rest)\<rparr>))"

definition addThreadLocalCallback :: "uint64_t \<Rightarrow> bool \<Rightarrow> World \<Rightarrow> uint64_t \<times> World" where
  "addThreadLocalCallback t needsInputs w =
     (let h = next_callback_handle w
      in (h, w\<lparr>tl_callbacks := (tl_callbacks w)(t := tl_callbacks w t @ [(h, needsInputs)]),
               next_callback_handle := h + 1\<rparr>))"

definition removeCallback :: "uint64_t \<Rightarrow> uint64_t \<Rightarrow> World \<Rightarrow> World" where
  "removeCallback t h w =
     w\<lparr>tl_callbacks := (tl_callbacks w)(t := filter (\<lambda>cb. fst cb \<noteq> h) (tl_callbacks w t))\<rparr>"

text \<open>
  The state object is shared between the slot and the code that holds a pointer to it:
  a write through the pointer is a write to the published state.
\<close>

definition update_active_state ::
  "uint64_t \<Rightarrow> (KinetoThreadLocalState \<Rightarrow> KinetoThreadLocalState) \<Rightarrow> World \<Rightarrow> World" where
  "update_active_state t f w =
     w\<lparr>debug_info :=
         (debug_info w)(t := (case debug_info w t of [] \<Rightarrow> [] | s # rest \<Rightarrow> f s # rest))\<rparr>"

definition getProfilerTLSState :: "uint64_t \<Rightarrow> World \<Rightarrow> KinetoThreadLocalState option" where
  "getProfilerTLSState t w = ThreadLocalDebugInfo_get t w"

subsection \<open>The correlation id generator\<close>

definition next_correlation_id :: "World \<Rightarrow> uint64_t \<times> World" where
  "next_correlation_id w = (corr_id w, w\<lparr>corr_id := corr_id w + 1\<rparr>)"

text \<open>\<open>n\<close> successive calls, the ids in the order of issue.\<close>

fun next_correlation_ids :: "nat \<Rightarrow> World \<Rightarrow> uint64_t list \<times> World" where
  "next_correlation_ids 0 w = ([], w)"
| "next_correlation_ids (Suc n) w =
     (let (c, w1) = next_correlation_id w;
          (cs, w2) = next_correlation_ids n w1
      in (c # cs, w2))"

subsection \<open>Recording, importing and finalizing events\<close>

text \<open>
  \<^verbatim>\<open>reportClientActivity\<close>, a member of the state that also talks to the collector; \<open>now\<close>
  is the value \<^verbatim>\<open>getTimeUs()\<close> returns, \<open>t\<close> the calling thread. A shape, type or stack
  list is stored on the event only when it is present and not empty.
\<close>

definition reportClientActivity ::
  "RecordFunction \<Rightarrow> KinetoObserverContext option \<Rightarrow> int64_t \<Rightarrow> uint64_t \<Rightarrow>
   KinetoThreadLocalState \<times> ActivityProfiler \<Rightarrow> KinetoThreadLocalState \<times> ActivityProfiler" where
  "reportClientActivity fn ctx_ptr now t sk =
     (case ctx_ptr of
        None \<Rightarrow> sk
      | Some ctx \<Rightarrow>
          let op = GenericTraceActivity_ctor
                     \<lparr>activityType := CPU_OP, activityName := fn_name fn,
                      startTime := startUs ctx, endTime := now, device := 0,
                      correlation := correlationId ctx\<rparr>;
              k = recordThreadInfo t (snd sk);
              op = op\<lparr>sysThreadId := t\<rparr>;
              e = activity (as_TraceActivity op) KinetoEvent_ctor;
              e = e\<lparr>ke_start_thread_id := startThreadId ctx,
                     ke_end_thread_id := endThreadId ctx,
                     ke_sequence_nr := sequenceNr ctx,
                     ke_fwd_thread_id := fwdThreadId ctx,
                     ke_scope := recFunScope ctx,
                     ke_is_async := fn_isAsync fn\<rparr>;
              e = (case shapes ctx of
                     Some v \<Rightarrow> if v \<noteq> [] then e\<lparr>ke_shapes := Some v\<rparr> else e
                   | None \<Rightarrow> e);
              e = (case dtypes ctx of
                     Some v \<Rightarrow> if v \<noteq> [] then e\<lparr>ke_dtypes := Some v\<rparr> else e
                   | None \<Rightarrow> e);
              e = (case stack ctx of
                     Some v \<Rightarrow> if v \<noteq> [] then e\<lparr>ke_stack := Some v\<rparr> else e
                   | None \<Rightarrow> e);
              e = (case extraArgs ctx of
                     Some v \<Rightarrow> if v \<noteq> [] then e\<lparr>ke_flops := fn_flops fn\<rparr> else e
                   | None \<Rightarrow> e);
              s = fst sk
          in (s\<lparr>kineto_events := kineto_events s @ [e],
                cpu_trace := (cpu_trace s)\<lparr>activities := activities (cpu_trace s) @ [op]\<rparr>\<rparr>,
              k))"

text \<open>\<^verbatim>\<open>addTraceEvents\<close>: the loop over the activities of the finalized external trace.\<close>

fun addTraceEvents_loop :: "TraceActivity list \<Rightarrow> KinetoEvent list \<Rightarrow> KinetoEvent list" where
  "addTraceEvents_loop [] evs = evs"
| "addTraceEvents_loop (ev # rest) evs =
     addTraceEvents_loop rest
       (if ta_type ev \<noteq> CPU_OP then evs @ [activity ev KinetoEvent_ctor] else evs)"

definition addTraceEvents :: "TraceActivity list \<Rightarrow> KinetoThreadLocalState \<Rightarrow> KinetoThreadLocalState" where
  "addTraceEvents trace s = s\<lparr>kineto_events := addTraceEvents_loop trace (kineto_events s)\<rparr>"

text \<open>
  \<^verbatim>\<open>finalizeCPUTrace\<close>: the assertion on the two sizes, then the index loop. The body of
  the loop is \<open>attach_metadata\<close>; it fails only where \<open>stacksToStr\<close> does.
\<close>

definition attach_metadata :: "KinetoEvent \<Rightarrow> GenericTraceActivity \<Rightarrow> error + GenericTraceActivity" where
  "attach_metadata kineto_event act =
     (let act = (if hasShapes kineto_event
                 then addMetadata ''Input Dims'' (shapesToStr (the (ke_shapes kineto_event))) act
                 else act)
      in case (if hasStack kineto_event
               then (case stacksToStr (the (ke_stack kineto_event)) of
                       Inl err \<Rightarrow> Inl err
                     | Inr str \<Rightarrow> Inr (addMetadata ''Call stack'' str act))
               else Inr act) of
           Inl err \<Rightarrow> Inl err
         | Inr act \<Rightarrow>
             let act = (if hasTypes kineto_event
                        then addMetadata ''Input type'' (dtypesToStr (the (ke_dtypes kineto_event))) act
                        else act);
                 act = (if 0 \<le> sint (ke_sequence_nr kineto_event)
                        then addMetadata ''Sequence number''
                               (to_string_int64 (ke_sequence_nr kineto_event))
                               (addMetadata ''Fwd thread id''
                                  (to_string_uint64 (ke_fwd_thread_id kineto_event)) act)
                        else act)
             in Inr act)"

function finalize_loop ::
  "nat \<Rightarrow> KinetoEvent list \<Rightarrow> GenericTraceActivity list \<Rightarrow> error + GenericTraceActivity list" where
  "finalize_loop idx evs acts =
     (if idx < length acts
      then (case attach_metadata (evs ! idx) (acts ! idx) of
              Inl err \<Rightarrow> Inl err
            | Inr act \<Rightarrow> finalize_loop (idx + 1) evs (acts[idx := act]))
      else Inr acts)"
  by pat_completeness auto
termination
  by (relation "measure (\<lambda>(idx, evs, acts). length acts - idx)") auto

declare finalize_loop.simps [simp del]

definition finalizeCPUTrace :: "KinetoThreadLocalState \<Rightarrow> error + KinetoThreadLocalState" where
  "finalizeCPUTrace s =
     (if length (activities (cpu_trace s)) \<noteq> length (kineto_events s)
      then Inl (InternalAssertFailed ''cpu_trace->activities.size() == kineto_events_.size()'')
      else (case finalize_loop 0 (kineto_events s) (activities (cpu_trace s)) of
              Inl err \<Rightarrow> Inl err
            | Inr acts \<Rightarrow> Inr (s\<lparr>cpu_trace := (cpu_trace s)\<lparr>activities := acts\<rparr>\<rparr>)))"

subsection \<open>The event capture callbacks\<close>

text \<open>
  The two lambdas registered by \<open>pushProfilingCallbacks\<close>. The start callback returns the
  context it built; the end callback returns the context as it leaves it.
\<close>

definition start_callback ::
  "RecordFunction \<Rightarrow> int64_t \<Rightarrow> uint64_t \<Rightarrow> World \<Rightarrow> KinetoObserverContext \<times> World" where
  "start_callback fn now t w =
     (case getProfilerTLSState t w of
        None \<Rightarrow> (KinetoObserverContext_ctor, w)
      | Some s \<Rightarrow>
          if state (config s) \<noteq> KINETO then (KinetoObserverContext_ctor, w)
          else
            let (cid, w) = next_correlation_id w;
                w = w\<lparr>kineto := pushCorrelationId t cid (kineto w)\<rparr>;
                ctx = KinetoObserverContext_ctor
                        \<lparr>startUs := now, correlationId := cid, startThreadId := t\<rparr>;
                ctx = (if report_input_shapes (config s)
                       then ctx\<lparr>shapes := Some (fn_inputSizes fn),
                                dtypes := Some (inputTypes fn)\<rparr>
                       else ctx);
                ctx = (if with_flops (config s)
                       then ctx\<lparr>extraArgs := Some (fn_extraArgs fn)\<rparr>
                       else ctx);
                ctx = ctx\<lparr>sequenceNr := fn_seqNr fn, fwdThreadId := fn_forwardThreadId fn,
                          recFunScope := fn_scope fn\<rparr>;
                ctx = (if with_stack (config s) \<and> fn_scope fn \<noteq> BACKWARD_FUNCTION
                       then let cs = fn_currentCallstack fn;
                                cs = (if cs = [] then fn_pythonCallstack fn else cs)
                            in ctx\<lparr>stack := Some cs\<rparr>
                       else ctx)
            in (ctx, w))"

definition end_callback ::
  "RecordFunction \<Rightarrow> KinetoObserverContext option \<Rightarrow> int64_t \<Rightarrow> uint64_t \<Rightarrow> World \<Rightarrow>
   (error + unit) \<times> KinetoObserverContext option \<times> World" where
  "end_callback fn ctx_ptr now t w =
     (case getProfilerTLSState t w of
        None \<Rightarrow> (Inr (), ctx_ptr, w)
      | Some s \<Rightarrow>
          if state (config s) \<noteq> KINETO then (Inr (), ctx_ptr, w)
          else
            (case ctx_ptr of
               None \<Rightarrow> (Inl (InternalAssertFailed ''kineto_ctx_ptr != nullptr''), ctx_ptr, w)
             | Some ctx \<Rightarrow>
                 let ctx = ctx\<lparr>endThreadId := t\<rparr>;
                     sk = reportClientActivity fn (Some ctx) now t (s, kineto w);
                     w = update_active_state t (\<lambda>s. fst sk) (w\<lparr>kineto := snd sk\<rparr>);
                     w = w\<lparr>kineto := popCorrelationId t (kineto w)\<rparr>
                 in (Inr (), Some ctx, w)))"

definition pushProfilingCallbacks :: "uint64_t \<Rightarrow> World \<Rightarrow> (error + unit) \<times> World" where
  "pushProfilingCallbacks t w =
     (case getProfilerTLSState t w of
        None \<Rightarrow> (Inl (InternalAssertFailed ''Expected profiler state set''), w)
      | Some s \<Rightarrow>
          let (h, w) = addThreadLocalCallback t (report_input_shapes (config s)) w
          in (Inr (), update_active_state t (\<lambda>s. s\<lparr>callback_handle := Some h\<rparr>) w))"

subsection \<open>Session start and stop\<close>

text \<open>
  \<^verbatim>\<open>enableProfiler\<close>: the three checks, in the order of the file, come before anything is
  written. The new state is published first and filled in through the pointer afterwards.
\<close>

definition enableProfiler ::
  "ProfilerConfig \<Rightarrow> ActivityType set \<Rightarrow> int64_t \<Rightarrow> uint64_t \<Rightarrow> World \<Rightarrow> (error + unit) \<times> World" where
  "enableProfiler cfg acts now t w =
     (if state cfg \<noteq> KINETO then (Inl (CheckFailed ''config.state == ProfilerState::KINETO''), w)
      else if acts = {} then (Inl (CheckFailed ''No activities specified for Kineto profiler''), w)
      else if getProfilerTLSState t w \<noteq> None
      then (Inl (CheckFailed ''Profiler is already enabled on this thread''), w)
      else
        let w = ThreadLocalDebugInfo_push t (KinetoThreadLocalState_ctor cfg) w;
            w = update_active_state t
                  (\<lambda>s. s\<lparr>cpu_trace := CpuTraceBuffer_ctor
                           \<lparr>span_startTime := now, gpuOpCount := - 1,
                            span_name := ''PyTorch Profiler''\<rparr>\<rparr>) w;
            (r, w) = (if ActivityType_CPU \<in> acts then pushProfilingCallbacks t w else (Inr (), w))
        in case r of
             Inl err \<Rightarrow> (Inl err, w)
           | Inr u \<Rightarrow>
               let w = w\<lparr>kineto := startTrace (kineto w)\<rparr>
               in (Inr (), update_active_state t (mark ''__start_profile'' t) w))"

record ProfilerResult =
  pr_events :: "KinetoEvent list"
  pr_legacy_events :: "(uint64_t \<times> EventKind \<times> string) list"
  pr_trace :: "TraceActivity list"
  pr_saved :: bool

definition ProfilerResult_ctor ::
  "KinetoEvent list \<Rightarrow> (uint64_t \<times> EventKind \<times> string) list \<Rightarrow> TraceActivity list \<Rightarrow> ProfilerResult" where
  "ProfilerResult_ctor events legacy_events trace =
     \<lparr>pr_events = events, pr_legacy_events = legacy_events, pr_trace = trace, pr_saved = False\<rparr>"

text \<open>
  \<^verbatim>\<open>disableProfiler\<close>: the state is popped first and checked afterwards. \<open>stopped\<close> is what
  the collector's \<^verbatim>\<open>stopTrace()\<close> returns, \<open>None\<close> for the null pointer.
\<close>

definition disableProfiler ::
  "TraceActivity list option \<Rightarrow> int64_t \<Rightarrow> uint64_t \<Rightarrow> World \<Rightarrow> (error + ProfilerResult) \<times> World" where
  "disableProfiler stopped now t w =
     (let (state_ptr, w) = ThreadLocalDebugInfo_pop t w
      in case state_ptr of
           None \<Rightarrow> (Inl (CheckFailed ''Can't disable Kineto profiler when it's not running''), w)
         | Some s \<Rightarrow>
             if state (config s) \<noteq> KINETO
             then (Inl (CheckFailed ''Can't disable Kineto profiler when it's not running''), w)
             else
               let w = (case callback_handle s of Some h \<Rightarrow> removeCallback t h w | None \<Rightarrow> w);
                   s = mark ''__stop_profile'' t s;
                   s = s\<lparr>cpu_trace := (cpu_trace s)\<lparr>span_endTime := now\<rparr>\<rparr>
               in case finalizeCPUTrace s of
                    Inl err \<Rightarrow> (Inl err, w)
                  | Inr s \<Rightarrow>
                      let w = w\<lparr>kineto := stopTrace (transferCpuTrace (cpu_trace s) (kineto w))\<rparr>
                      in case stopped of
                           None \<Rightarrow> (Inl (CheckFailed ''trace''), w)
                         | Some trace \<Rightarrow>
                             let s = addTraceEvents trace s
                             in (Inr (ProfilerResult_ctor (kineto_events s) (consolidate s) trace),
                                 w))"

text \<open>
  \<^verbatim>\<open>ProfilerResult::save\<close>. The collector's \<^verbatim>\<open>save\<close> is the parameter \<open>trace_save\<close>: from
  the trace, the path and the files it gives whether it returned normally, the trace and
  the files afterwards.
\<close>

definition save ::
  "(TraceActivity list \<Rightarrow> string \<Rightarrow> 'fs \<Rightarrow> bool \<times> TraceActivity list \<times> 'fs) \<Rightarrow>
   string \<Rightarrow> ProfilerResult \<Rightarrow> 'fs \<Rightarrow> (error + unit) \<times> ProfilerResult \<times> 'fs" where
  "save trace_save path r files =
     (if pr_saved r then (Inl (CheckFailed ''Trace is already saved''), r, files)
      else
        (case trace_save (pr_trace r) path files of
           (ok, trace, files) \<Rightarrow>
             if ok then (Inr (), r\<lparr>pr_trace := trace, pr_saved := True\<rparr>, files)
             else (Inl (CheckFailed ''trace_->save''), r\<lparr>pr_trace := trace\<rparr>, files)))"

section \<open>Properties\<close>

subsection \<open>Concrete values used as inputs\<close>

definition example_config :: ProfilerConfig where
  "example_config =
     \<lparr>state = KINETO, report_input_shapes = True, profile_memory = False, with_stack = True,
      with_flops = False\<rparr>"

definition example_fn :: RecordFunction where
  "example_fn =
     \<lparr>fn_name = ''add'', fn_inputs = [Tensor True ''float''], fn_inputSizes = [[2, 3]],
      fn_seqNr = 5, fn_forwardThreadId = 0, fn_scope = FUNCTION, fn_isAsync = False,
      fn_extraArgs = [], fn_flops = 0, fn_currentCallstack = [''a.py(1): f''],
      fn_pythonCallstack = []\<rparr>"

definition example_ctx :: KinetoObserverContext where
  "example_ctx =
     KinetoObserverContext_ctor
       \<lparr>startUs := 11, correlationId := 7, shapes := Some [[2, 3]], dtypes := Some [''float''],
        sequenceNr := 5, stack := Some [''a.py(1): f'']\<rparr>"

definition example_kineto :: ActivityProfiler where
  "example_kineto =
     \<lparr>correlation_ids = (\<lambda>t. []), thread_infos = [], tracing = False, cpu_traces = []\<rparr>"

subsection \<open>Runs of the session interface\<close>

text \<open>
  The calls a thread can make, and the state after a list of them. A call that fails
  leaves the state it had reached when it failed.
\<close>

datatype call =
    Enable ProfilerConfig "ActivityType set" int64_t uint64_t
  | OpStart RecordFunction int64_t uint64_t
  | OpEnd RecordFunction "KinetoObserverContext option" int64_t uint64_t
  | Disable "TraceActivity list option" int64_t uint64_t

fun step :: "call \<Rightarrow> World \<Rightarrow> World" where
  "step (Enable cfg acts now t) w = snd (enableProfiler cfg acts now t w)"
| "step (OpStart fn now t) w = snd (start_callback fn now t w)"
| "step (OpEnd fn ctx_ptr now t) w = snd (snd (end_callback fn ctx_ptr now t w))"
| "step (Disable stopped now t) w = snd (disableProfiler stopped now t w)"

fun run :: "call list \<Rightarrow> World \<Rightarrow> World" where
  "run [] w = w"
| "run (c # cs) w = run cs (step c w)"

definition example_state :: KinetoThreadLocalState where
  "example_state =
     fst (reportClientActivity example_fn (Some example_ctx) 12 0
            (KinetoThreadLocalState_ctor example_config, example_kineto))"

text \<open>
  An accelerator activity that carries the correlation id 7 of the example operation
  itself and links to nothing, and the events after the example operation has been
  recorded and a trace holding this activity imported.
\<close>

definition unlinked_kernel :: TraceActivity where
  "unlinked_kernel = TraceActivity ''kernel'' 0 1 20 3 7 CONCURRENT_KERNEL None"

definition unlinked_merged_events :: "KinetoEvent list" where
  "unlinked_merged_events = kineto_events (addTraceEvents [unlinked_kernel] example_state)"

text \<open>The example state with its stored stack replaced by an empty one; no call builds it.\<close>

definition empty_stack_state :: KinetoThreadLocalState where
  "empty_stack_state =
     example_state\<lparr>kineto_events := map (\<lambda>e. e\<lparr>ke_stack := Some []\<rparr>) (kineto_events example_state)\<rparr>"

definition unpaired_state :: KinetoThreadLocalState where
  "unpaired_state =
     addTraceEvents [TraceActivity ''kernel'' 0 1 20 3 99 CONCURRENT_KERNEL None]
       (KinetoThreadLocalState_ctor example_config)"

definition example_calls :: "call list" where
  "example_calls =
     [Enable example_config {ActivityType_CPU} 10 0,
      OpStart example_fn 11 0,
      OpEnd example_fn (Some example_ctx) 12 0]"

text \<open>
  A thread on which the legacy profiler has published a state (its configuration is not
  \<open>KINETO\<close>), a thread with a running Kineto session, the same with one operation
  started, the same after the end callback has been given the no-op context, and a
  collector whose \<^verbatim>\<open>save\<close> writes the trace under the path and empties it.
\<close>

definition legacy_World :: World where
  "legacy_World =
     initial_World\<lparr>debug_info :=
       (\<lambda>t. [])(0 := [KinetoThreadLocalState_ctor (example_config\<lparr>state := CPU\<rparr>)])\<rparr>"

definition enabled_World :: World where
  "enabled_World = snd (enableProfiler example_config {ActivityType_CPU} 10 0 initial_World)"

definition outer_started_World :: World where
  "outer_started_World = snd (start_callback example_fn 11 0 enabled_World)"

definition sentinel_ended_World :: World where
  "sentinel_ended_World =
     snd (snd (end_callback example_fn (Some KinetoObserverContext_ctor) 12 0
                 outer_started_World))"

definition example_trace_save ::
  "TraceActivity list \<Rightarrow> string \<Rightarrow> (string \<times> TraceActivity list) list \<Rightarrow>
   bool \<times> TraceActivity list \<times> (string \<times> TraceActivity list) list" where
  "example_trace_save trace path files = (True, [], (path, trace) # files)"

subsection \<open>Invariants and expected values\<close>

text \<open>
  The invariant of a profiling state: no event stores an empty stack, and the trace buffer
  has one activity for each event.
\<close>

definition state_inv :: "KinetoThreadLocalState \<Rightarrow> bool" where
  "state_inv s =
     ((\<forall>e\<in>set (kineto_events s). ke_stack e \<noteq> Some []) \<and>
      length (activities (cpu_trace s)) = length (kineto_events s))"

definition world_inv :: "World \<Rightarrow> bool" where
  "world_inv w = (\<forall>t. \<forall>s\<in>set (debug_info w t). state_inv s)"

text \<open>
  The metadata that the description of \<open>finalizeCPUTrace\<close> owes an event: the serialized
  shapes, call stack and input types, each when the event has them, then the forward
  thread id and the sequence number when the sequence number is not negative.
\<close>

definition expected_metadata :: "KinetoEvent \<Rightarrow> (string \<times> string) list" where
  "expected_metadata e =
     (if hasShapes e then [(''Input Dims'', shapesToStr (the (ke_shapes e)))] else []) @
     (if hasStack e
      then [(''Call stack'', butlast (concat (map (\<lambda>s. s @ '';'') (the (ke_stack e)))))]
      else []) @
     (if hasTypes e then [(''Input type'', dtypesToStr (the (ke_dtypes e)))] else []) @
     (if 0 \<le> sint (ke_sequence_nr e)
      then [(''Fwd thread id'', to_string_uint64 (ke_fwd_thread_id e)),
            (''Sequence number'', to_string_int64 (ke_sequence_nr e))]
      else [])"

subsection \<open>Helper lemmas on events\<close>

lemma activity_correlation_id:
  "ke_correlation_id (activity a e) =
     (if ta_type a = CPU_OP then ta_correlationId a else ke_correlation_id e)"
  by (simp add: activity_def Let_def split: option.split)

lemma activity_linked_correlation_id:
  "ke_linked_correlation_id (activity a e) =
     (case ta_linkedActivity a of
        Some linked \<Rightarrow> ta_correlationId linked
      | None \<Rightarrow> ke_linked_correlation_id e)"
  by (simp add: activity_def Let_def split: option.split)

lemma activity_type: "ke_activity_type (activity a e) = ta_type a"
  by (simp add: activity_def Let_def split: option.split)

lemma addTraceEvents_loop_eq:
  "addTraceEvents_loop trace evs =
     evs @ map (\<lambda>a. activity a KinetoEvent_ctor) (filter (\<lambda>a. ta_type a \<noteq> CPU_OP) trace)"
  by (induction trace arbitrary: evs) simp_all

lemma reportClientActivity_events:
  "\<exists>e. kineto_events (fst (reportClientActivity fn (Some ctx) now t sk)) =
          kineto_events (fst sk) @ [e]
     \<and> ke_correlation_id e = correlationId ctx
     \<and> ke_activity_type e = CPU_OP
     \<and> ke_stack e = (case stack ctx of
                       Some v \<Rightarrow> if v \<noteq> [] then Some v else None
                     | None \<Rightarrow> None)"
  by (simp add: reportClientActivity_def Let_def activity_def as_TraceActivity_def
      KinetoEvent_ctor_def GenericTraceActivity_ctor_def split: option.split)

lemma reportClientActivity_activities:
  "length (activities (cpu_trace (fst (reportClientActivity fn (Some ctx) now t sk)))) =
     Suc (length (activities (cpu_trace (fst sk))))"
  by (simp add: reportClientActivity_def Let_def)

lemma reportClientActivity_null: "reportClientActivity fn None now t sk = sk"
  by (simp add: reportClientActivity_def)

subsection \<open>The serializers on the documented inputs\<close>

text \<open>
  C9. The serializers are functions of their argument alone, and on the documented
  inputs they give the documented strings: the shapes \<open>[[2,3],[4]]\<close> give
  \<^verbatim>\<open>[[2, 3], [4]]\<close>, the type names \<open>float\<close> and \<open>int\<close> give the two names quoted and
  separated by a comma and a blank inside brackets (\<open>CHR 0x22\<close> is the double quote), and
  the empty list of type names gives \<^verbatim>\<open>[]\<close>.
\<close>

theorem serializers_documented_outputs:
  "shapesToStr [[2, 3], [4]] = ''[[2, 3], [4]]'' \<and>
   dtypesToStr [''float'', ''int''] =
     [CHR ''['', CHR 0x22] @ ''float'' @ [CHR 0x22] @ '', '' @ [CHR 0x22] @ ''int'' @
     [CHR 0x22, CHR '']''] \<and>
   dtypesToStr [] = ''[]''"
  by code_simp

subsection \<open>Correlation ids of an event\<close>

text \<open>
  C5 as stated fails in its last part: an accelerator activity that carries the
  operation's correlation id itself, and has no linked activity, is imported with linked
  correlation id \<open>0\<close>, not the operation's \<open>7\<close>. The activity's own correlation id is
  read in the \<open>CPU_OP\<close> branch only.
\<close>

theorem unlinked_activity_not_linked_counterexample:
  "ta_type unlinked_kernel \<noteq> CPU_OP \<and>
   ta_correlationId unlinked_kernel = correlationId example_ctx \<and>
   length unlinked_merged_events = 2 \<and>
   ke_activity_type (unlinked_merged_events ! 0) = CPU_OP \<and>
   ke_correlation_id (unlinked_merged_events ! 0) = 7 \<and>
   ke_activity_type (unlinked_merged_events ! 1) = CONCURRENT_KERNEL \<and>
   ke_linked_correlation_id (unlinked_merged_events ! 1) = 0 \<and>
   ke_linked_correlation_id (unlinked_merged_events ! 1) \<noteq>
     ke_correlation_id (unlinked_merged_events ! 0)"
  by code_simp

text \<open>
  C5, as \<open>KinetoEvent::activity\<close> is. It assigns the event's correlation id exactly when
  the activity is of kind \<open>CPU_OP\<close> (otherwise the member keeps its value), and assigns the
  linked correlation id, to the correlation id of the linked activity, exactly when the
  activity has a linked activity. Hence, when an operation is recorded with correlation id
  \<open>c\<close> and an external activity of another kind is imported, the merged events hold
  both, the operation's event with correlation id \<open>c\<close> and the external one with the
  constructor's correlation id \<open>0\<close>; the external event's linked correlation id is \<open>c\<close>
  when the activity's linked activity carries \<open>c\<close>, and is the constructor's \<open>0\<close> when
  the activity has no linked activity, whatever correlation id the activity carries itself.
\<close>

theorem KinetoEvent_activity_correlation_ids:
  "ke_correlation_id (activity a e) =
     (if ta_type a = CPU_OP then ta_correlationId a else ke_correlation_id e) \<and>
   ke_linked_correlation_id (activity a e) =
     (case ta_linkedActivity a of
        Some linked \<Rightarrow> ta_correlationId linked
      | None \<Rightarrow> ke_linked_correlation_id e) \<and>
   (ta_type acc \<noteq> CPU_OP \<longrightarrow> ta_linkedActivity acc = Some op \<longrightarrow>
    ta_correlationId op = correlationId ctx \<longrightarrow>
      (let evs = kineto_events
                   (addTraceEvents [acc] (fst (reportClientActivity fn (Some ctx) now t sk)));
           n = length (kineto_events (fst sk))
       in length evs = n + 2 \<and>
          ke_activity_type (evs ! n) = CPU_OP \<and>
          ke_correlation_id (evs ! n) = correlationId ctx \<and>
          ke_activity_type (evs ! (n + 1)) = ta_type acc \<and>
          ke_correlation_id (evs ! (n + 1)) = 0 \<and>
          ke_linked_correlation_id (evs ! (n + 1)) = ke_correlation_id (evs ! n))) \<and>
   (ta_type acc \<noteq> CPU_OP \<longrightarrow> ta_linkedActivity acc = None \<longrightarrow>
      (let evs = kineto_events
                   (addTraceEvents [acc] (fst (reportClientActivity fn (Some ctx) now t sk)));
           n = length (kineto_events (fst sk))
       in length evs = n + 2 \<and>
          ke_correlation_id (evs ! n) = correlationId ctx \<and>
          ke_activity_type (evs ! (n + 1)) = ta_type acc \<and>
          ke_correlation_id (evs ! (n + 1)) = 0 \<and>
          ke_linked_correlation_id (evs ! (n + 1)) = 0))"
proof (intro conjI impI)
  show "ke_correlation_id (activity a e) =
     (if ta_type a = CPU_OP then ta_correlationId a else ke_correlation_id e)"
    by (rule activity_correlation_id)
  show "ke_linked_correlation_id (activity a e) =
     (case ta_linkedActivity a of
        Some linked \<Rightarrow> ta_correlationId linked
      | None \<Rightarrow> ke_linked_correlation_id e)"
    by (rule activity_linked_correlation_id)
next
  assume kind: "ta_type acc \<noteq> CPU_OP"
    and link: "ta_linkedActivity acc = Some op"
    and carried: "ta_correlationId op = correlationId ctx"
  obtain ev where ev:
    "kineto_events (fst (reportClientActivity fn (Some ctx) now t sk)) =
       kineto_events (fst sk) @ [ev]"
    "ke_correlation_id ev = correlationId ctx" "ke_activity_type ev = CPU_OP"
    using reportClientActivity_events [of fn ctx now t sk] by blast
  have imported:
    "kineto_events (addTraceEvents [acc] (fst (reportClientActivity fn (Some ctx) now t sk))) =
       kineto_events (fst sk) @ [ev, activity acc KinetoEvent_ctor]"
    using kind ev(1) by (simp add: addTraceEvents_def)
  have fresh: "ke_correlation_id KinetoEvent_ctor = 0"
    by (simp add: KinetoEvent_ctor_def)
  show "let evs = kineto_events
                   (addTraceEvents [acc] (fst (reportClientActivity fn (Some ctx) now t sk)));
           n = length (kineto_events (fst sk))
       in length evs = n + 2 \<and>
          ke_activity_type (evs ! n) = CPU_OP \<and>
          ke_correlation_id (evs ! n) = correlationId ctx \<and>
          ke_activity_type (evs ! (n + 1)) = ta_type acc \<and>
          ke_correlation_id (evs ! (n + 1)) = 0 \<and>
          ke_linked_correlation_id (evs ! (n + 1)) = ke_correlation_id (evs ! n)"
    unfolding imported Let_def
    using kind link carried ev(2,3) fresh
    by (simp add: nth_append activity_correlation_id activity_linked_correlation_id
        activity_type)
next
  assume kind: "ta_type acc \<noteq> CPU_OP"
    and nolink: "ta_linkedActivity acc = None"
  obtain ev where ev:
    "kineto_events (fst (reportClientActivity fn (Some ctx) now t sk)) =
       kineto_events (fst sk) @ [ev]"
    "ke_correlation_id ev = correlationId ctx"
    using reportClientActivity_events [of fn ctx now t sk] by blast
  have imported:
    "kineto_events (addTraceEvents [acc] (fst (reportClientActivity fn (Some ctx) now t sk))) =
       kineto_events (fst sk) @ [ev, activity acc KinetoEvent_ctor]"
    using kind ev(1) by (simp add: addTraceEvents_def)
  have fresh: "ke_correlation_id KinetoEvent_ctor = 0" "ke_linked_correlation_id KinetoEvent_ctor = 0"
    by (simp_all add: KinetoEvent_ctor_def)
  show "let evs = kineto_events
                   (addTraceEvents [acc] (fst (reportClientActivity fn (Some ctx) now t sk)));
           n = length (kineto_events (fst sk))
       in length evs = n + 2 \<and>
          ke_correlation_id (evs ! n) = correlationId ctx \<and>
          ke_activity_type (evs ! (n + 1)) = ta_type acc \<and>
          ke_correlation_id (evs ! (n + 1)) = 0 \<and>
          ke_linked_correlation_id (evs ! (n + 1)) = 0"
    unfolding imported Let_def
    using kind nolink ev(2) fresh
    by (simp add: nth_append activity_correlation_id activity_linked_correlation_id
        activity_type)
qed

theorem KinetoEvent_activity_correlation_ids_witness:
  "ta_type (TraceActivity ''kernel'' 0 1 20 3 99 CONCURRENT_KERNEL
              (Some (TraceActivity ''add'' 0 0 11 1 7 CPU_OP None))) \<noteq> CPU_OP \<and>
   ta_correlationId (TraceActivity ''add'' 0 0 11 1 7 CPU_OP None) = correlationId example_ctx \<and>
   (let evs = kineto_events
                (addTraceEvents
                   [TraceActivity ''kernel'' 0 1 20 3 99 CONCURRENT_KERNEL
                      (Some (TraceActivity ''add'' 0 0 11 1 7 CPU_OP None))]
                   (fst (reportClientActivity example_fn (Some example_ctx) 12 0
                           (KinetoThreadLocalState_ctor example_config, example_kineto))))
    in length evs = 2 \<and> ke_correlation_id (evs ! 0) = 7 \<and>
       ke_correlation_id (evs ! 1) = 0 \<and> ke_linked_correlation_id (evs ! 1) = 7) \<and>
   ta_type (TraceActivity ''kernel'' 0 1 20 3 7 CONCURRENT_KERNEL None) \<noteq> CPU_OP \<and>
   ta_linkedActivity (TraceActivity ''kernel'' 0 1 20 3 7 CONCURRENT_KERNEL None) = None \<and>
   (let evs = kineto_events
                (addTraceEvents
                   [TraceActivity ''kernel'' 0 1 20 3 7 CONCURRENT_KERNEL None]
                   (fst (reportClientActivity example_fn (Some example_ctx) 12 0
                           (KinetoThreadLocalState_ctor example_config, example_kineto))))
    in length evs = 2 \<and> ke_correlation_id (evs ! 0) = 7 \<and>
       ke_correlation_id (evs ! 1) = 0 \<and> ke_linked_correlation_id (evs ! 1) = 0)"
  using KinetoEvent_activity_correlation_ids
    [where acc = "TraceActivity ''kernel'' 0 1 20 3 99 CONCURRENT_KERNEL
               (Some (TraceActivity ''add'' 0 0 11 1 7 CPU_OP None))"
       and op = "TraceActivity ''add'' 0 0 11 1 7 CPU_OP None" and ctx = example_ctx
       and fn = example_fn and now = 12 and t = 0
       and sk = "(KinetoThreadLocalState_ctor example_config, example_kineto)"]
    KinetoEvent_activity_correlation_ids
    [where acc = "TraceActivity ''kernel'' 0 1 20 3 7 CONCURRENT_KERNEL None"
       and ctx = example_ctx and fn = example_fn and now = 12 and t = 0
       and sk = "(KinetoThreadLocalState_ctor example_config, example_kineto)"]
  by (simp add: Let_def example_ctx_def KinetoObserverContext_ctor_def
      KinetoThreadLocalState_ctor_def)

subsection \<open>Importing the external trace\<close>

text \<open>
  C6. \<open>addTraceEvents\<close> appends to the event sequence one event for each activity of the
  external trace that is not of kind \<open>CPU_OP\<close>, in the order of the trace, and none for a
  \<open>CPU_OP\<close> activity; the events already there, and the rest of the state, stay as they are.
\<close>

theorem addTraceEvents_appends_non_CPU_OP:
  "addTraceEvents trace s =
     s\<lparr>kineto_events := kineto_events s @
          map (\<lambda>a. activity a KinetoEvent_ctor) (filter (\<lambda>a. ta_type a \<noteq> CPU_OP) trace)\<rparr>"
  by (simp add: addTraceEvents_def addTraceEvents_loop_eq)

subsection \<open>The loop of \<open>finalizeCPUTrace\<close>\<close>

lemma stacksToStr_empty: "stacksToStr [] = Inl UndefinedBehaviour"
  by (simp add: stacksToStr_def pop_back_def)

lemma stacksToStr_nonempty:
  "stacks \<noteq> [] \<Longrightarrow>
     stacksToStr stacks = Inr (butlast (concat (map (\<lambda>s. s @ '';'') stacks)))"
  by (cases stacks) (simp_all add: stacksToStr_def pop_back_def)

lemma attach_metadata_ok:
  assumes "ke_stack e \<noteq> Some []"
  shows "attach_metadata e a = Inr (a\<lparr>metadata := metadata a @ expected_metadata e\<rparr>)"
proof (cases "ke_stack e")
  case None
  then show ?thesis
    by (simp add: attach_metadata_def expected_metadata_def addMetadata_def hasStack_def Let_def)
next
  case (Some st)
  with assms have "st \<noteq> []" by simp
  then have "stacksToStr st = Inr (butlast (concat (map (\<lambda>s. s @ '';'') st)))"
    by (rule stacksToStr_nonempty)
  with Some show ?thesis
    by (simp add: attach_metadata_def expected_metadata_def addMetadata_def hasStack_def Let_def)
qed

lemma finalize_loop_ok:
  "idx \<le> length acts \<Longrightarrow> length evs = length acts \<Longrightarrow>
   \<forall>e\<in>set evs. ke_stack e \<noteq> Some [] \<Longrightarrow>
   finalize_loop idx evs acts =
     Inr (take idx acts @
          map (\<lambda>(e, a). a\<lparr>metadata := metadata a @ expected_metadata e\<rparr>)
            (zip (drop idx evs) (drop idx acts)))"
proof (induction idx evs acts rule: finalize_loop.induct)
  case (1 idx evs acts)
  show ?case
  proof (cases "idx < length acts")
    case False
    with "1.prems" have "take idx acts = acts" "drop idx acts = []" by simp_all
    with False show ?thesis
      by (subst finalize_loop.simps) simp
  next
    case True
    let ?act = "(acts ! idx)\<lparr>metadata := metadata (acts ! idx) @ expected_metadata (evs ! idx)\<rparr>"
    from True "1.prems" have mem: "evs ! idx \<in> set evs" by simp
    with "1.prems" have att: "attach_metadata (evs ! idx) (acts ! idx) = Inr ?act"
      by (simp add: attach_metadata_ok)
    have ih: "finalize_loop (idx + 1) evs (acts[idx := ?act]) =
       Inr (take (idx + 1) (acts[idx := ?act]) @
          map (\<lambda>(e, a). a\<lparr>metadata := metadata a @ expected_metadata e\<rparr>)
            (zip (drop (idx + 1) evs) (drop (idx + 1) (acts[idx := ?act]))))"
      using "1.IH" [OF True att] True "1.prems" by simp
    have t: "take (Suc idx) (acts[idx := ?act]) = take idx acts @ [?act]"
      using True by (simp add: take_Suc_conv_app_nth)
    have de: "drop idx evs = evs ! idx # drop (Suc idx) evs"
      using True "1.prems" by (simp add: Cons_nth_drop_Suc)
    have da: "drop idx acts = acts ! idx # drop (Suc idx) acts"
      using True by (simp add: Cons_nth_drop_Suc)
    show ?thesis
      using True att ih
      by (simp add: finalize_loop.simps [of idx evs acts] t de da)
  qed
qed

subsection \<open>The invariant is kept by every call\<close>

lemma reportClientActivity_inv:
  assumes "state_inv (fst sk)"
  shows "state_inv (fst (reportClientActivity fn ctx_ptr now t sk))"
proof (cases ctx_ptr)
  case None
  with assms show ?thesis by (simp add: reportClientActivity_null)
next
  case (Some ctx)
  obtain e where e:
    "kineto_events (fst (reportClientActivity fn (Some ctx) now t sk)) =
       kineto_events (fst sk) @ [e]"
    "ke_stack e = (case stack ctx of
                     Some v \<Rightarrow> if v \<noteq> [] then Some v else None
                   | None \<Rightarrow> None)"
    using reportClientActivity_events [of fn ctx now t sk] by blast
  from e(2) have "ke_stack e \<noteq> Some []"
    by (simp split: option.splits if_splits)
  with assms e(1) reportClientActivity_activities [of fn ctx now t sk] Some
  show ?thesis by (simp add: state_inv_def)
qed

lemma world_inv_kineto [simp]: "world_inv (w\<lparr>kineto := k\<rparr>) = world_inv w"
  by (simp add: world_inv_def)

lemma world_inv_corr_id [simp]: "world_inv (w\<lparr>corr_id := c\<rparr>) = world_inv w"
  by (simp add: world_inv_def)

lemma world_inv_removeCallback [simp]: "world_inv (removeCallback t h w) = world_inv w"
  by (simp add: world_inv_def removeCallback_def)

lemma world_inv_addThreadLocalCallback:
  "world_inv (snd (addThreadLocalCallback t b w)) = world_inv w"
  by (simp add: world_inv_def addThreadLocalCallback_def Let_def)

lemma world_inv_stack:
  assumes "world_inv w" and "debug_info w t = s # rest"
  shows "state_inv s" and "\<forall>x\<in>set rest. state_inv x"
proof -
  from assms(1) have "\<forall>x\<in>set (debug_info w t). state_inv x"
    by (simp add: world_inv_def)
  with assms(2) show "state_inv s" and "\<forall>x\<in>set rest. state_inv x"
    by simp_all
qed

lemma world_inv_debug_info_upd:
  assumes "world_inv w" and "\<forall>x\<in>set xs. state_inv x"
  shows "world_inv (w\<lparr>debug_info := (debug_info w)(t := xs)\<rparr>)"
  using assms by (simp add: world_inv_def)

lemma world_inv_update:
  assumes "world_inv w" and "\<And>s. state_inv s \<Longrightarrow> state_inv (f s)"
  shows "world_inv (update_active_state t f w)"
proof (cases "debug_info w t")
  case Nil
  with assms(1) show ?thesis
    by (simp add: update_active_state_def world_inv_debug_info_upd)
next
  case (Cons s rest)
  with assms world_inv_stack [OF assms(1) Cons] show ?thesis
    by (simp add: update_active_state_def world_inv_debug_info_upd)
qed

lemma world_inv_push:
  assumes "world_inv w" and "state_inv s"
  shows "world_inv (ThreadLocalDebugInfo_push t s w)"
proof -
  from assms(1) have "\<forall>x\<in>set (debug_info w t). state_inv x"
    by (simp add: world_inv_def)
  with assms show ?thesis
    by (simp add: ThreadLocalDebugInfo_push_def world_inv_debug_info_upd)
qed

lemma world_inv_pop:
  assumes "world_inv w"
  shows "world_inv (snd (ThreadLocalDebugInfo_pop t w))"
proof (cases "debug_info w t")
  case Nil
  with assms show ?thesis by (simp add: ThreadLocalDebugInfo_pop_def)
next
  case (Cons s rest)
  with assms world_inv_stack [OF assms Cons] show ?thesis
    by (simp add: ThreadLocalDebugInfo_pop_def world_inv_debug_info_upd)
qed

lemma world_inv_popped:
  assumes "world_inv w" and "fst (ThreadLocalDebugInfo_pop t w) = Some s"
  shows "state_inv s"
proof (cases "debug_info w t")
  case Nil
  with assms(2) show ?thesis by (simp add: ThreadLocalDebugInfo_pop_def)
next
  case (Cons s' rest)
  with assms(2) world_inv_stack [OF assms(1) Cons] show ?thesis
    by (simp add: ThreadLocalDebugInfo_pop_def)
qed

lemma getProfilerTLSState_inv:
  assumes "world_inv w" and "getProfilerTLSState t w = Some s"
  shows "state_inv s"
proof (cases "debug_info w t")
  case Nil
  with assms(2) show ?thesis
    by (simp add: getProfilerTLSState_def ThreadLocalDebugInfo_get_def)
next
  case (Cons s' rest)
  with assms(2) world_inv_stack [OF assms(1) Cons] show ?thesis
    by (simp add: getProfilerTLSState_def ThreadLocalDebugInfo_get_def)
qed

lemma world_inv_initial: "world_inv initial_World"
  by (simp add: world_inv_def initial_World_def)

lemma state_inv_mark [simp]: "state_inv (mark n t s) = state_inv s"
  by (simp add: state_inv_def mark_def)

lemma state_inv_handle [simp]: "state_inv (s\<lparr>callback_handle := h\<rparr>) = state_inv s"
  by (simp add: state_inv_def)

lemma start_callback_inv: "world_inv w \<Longrightarrow> world_inv (snd (start_callback fn now t w))"
  by (simp add: start_callback_def next_correlation_id_def Let_def split: option.split)

lemma end_callback_inv:
  assumes "world_inv w"
  shows "world_inv (snd (snd (end_callback fn ctx_ptr now t w)))"
proof (cases "getProfilerTLSState t w")
  case None
  with assms show ?thesis by (simp add: end_callback_def)
next
  case (Some s)
  with assms have s: "state_inv s" by (rule getProfilerTLSState_inv)
  have "world_inv (update_active_state t (\<lambda>s'. fst (reportClientActivity fn c now t (s, k))) w')"
    if "world_inv w'" for c k w'
    using that by (rule world_inv_update) (simp add: reportClientActivity_inv s)
  with Some assms show ?thesis
    by (simp add: end_callback_def Let_def split: option.split)
qed

lemma pushProfilingCallbacks_inv:
  assumes "world_inv w"
  shows "world_inv (snd (pushProfilingCallbacks t w))"
proof (cases "getProfilerTLSState t w")
  case None
  with assms show ?thesis by (simp add: pushProfilingCallbacks_def)
next
  case (Some s)
  have "world_inv (update_active_state t (\<lambda>s. s\<lparr>callback_handle := Some h\<rparr>)
                    (snd (addThreadLocalCallback t b w)))" for h b
    by (rule world_inv_update) (simp_all add: world_inv_addThreadLocalCallback assms)
  with Some show ?thesis
    by (simp add: pushProfilingCallbacks_def split_beta Let_def)
qed

lemma enableProfiler_inv:
  assumes "world_inv w"
  shows "world_inv (snd (enableProfiler cfg acts now t w))"
proof -
  let ?w1 = "ThreadLocalDebugInfo_push t (KinetoThreadLocalState_ctor cfg) w"
  let ?w2 = "w\<lparr>debug_info := (debug_info w)(t :=
       (KinetoThreadLocalState_ctor cfg)\<lparr>cpu_trace := CpuTraceBuffer_ctor
          \<lparr>span_startTime := now, gpuOpCount := - 1, span_name := ''PyTorch Profiler''\<rparr>\<rparr>
       # debug_info w t)\<rparr>"
  have eq: "update_active_state t
              (\<lambda>s. s\<lparr>cpu_trace := CpuTraceBuffer_ctor
                       \<lparr>span_startTime := now, gpuOpCount := - 1,
                        span_name := ''PyTorch Profiler''\<rparr>\<rparr>) ?w1 = ?w2"
    by (simp add: update_active_state_def ThreadLocalDebugInfo_push_def)
  have "state_inv ((KinetoThreadLocalState_ctor cfg)\<lparr>cpu_trace := CpuTraceBuffer_ctor
          \<lparr>span_startTime := now, gpuOpCount := - 1, span_name := ''PyTorch Profiler''\<rparr>\<rparr>)"
    by (simp add: state_inv_def KinetoThreadLocalState_ctor_def CpuTraceBuffer_ctor_def)
  moreover from assms have "\<forall>x\<in>set (debug_info w t). state_inv x"
    by (simp add: world_inv_def)
  ultimately have w2: "world_inv ?w2"
    using assms by (simp add: world_inv_debug_info_upd)
  then have w3: "world_inv (snd (pushProfilingCallbacks t ?w2))"
    by (rule pushProfilingCallbacks_inv)
  have m: "world_inv (update_active_state t (mark ''__start_profile'' t) w')" if "world_inv w'" for w'
    using that by (rule world_inv_update) simp
  show ?thesis
    using assms w2 w3 m
    by (simp add: enableProfiler_def Let_def split_beta eq split: sum.split)
qed

lemma finalizeCPUTrace_ok:
  assumes len: "length (activities (cpu_trace s)) = length (kineto_events s)"
    and ne: "\<forall>e\<in>set (kineto_events s). ke_stack e \<noteq> Some []"
  shows "finalizeCPUTrace s =
     Inr (s\<lparr>cpu_trace := (cpu_trace s)
            \<lparr>activities := map (\<lambda>(e, a). a\<lparr>metadata := metadata a @ expected_metadata e\<rparr>)
                 (zip (kineto_events s) (activities (cpu_trace s)))\<rparr>\<rparr>)"
proof -
  have "finalize_loop 0 (kineto_events s) (activities (cpu_trace s)) =
      Inr (map (\<lambda>(e, a). a\<lparr>metadata := metadata a @ expected_metadata e\<rparr>)
                 (zip (kineto_events s) (activities (cpu_trace s))))"
    using finalize_loop_ok [of 0 "activities (cpu_trace s)" "kineto_events s",
        OF _ len [symmetric] ne]
    by simp
  with len show ?thesis by (simp add: finalizeCPUTrace_def)
qed

lemma state_inv_finalize:
  assumes "state_inv s"
  shows "\<exists>s'. finalizeCPUTrace s = Inr s'"
  using assms finalizeCPUTrace_ok [of s] by (simp add: state_inv_def)

lemma state_inv_span_endTime:
  "state_inv (s\<lparr>cpu_trace := (cpu_trace s)\<lparr>span_endTime := now\<rparr>\<rparr>) = state_inv s"
  by (simp add: state_inv_def)

lemma disableProfiler_inv:
  assumes "world_inv w"
  shows "world_inv (snd (disableProfiler stopped now t w))"
proof -
  have "world_inv (snd (ThreadLocalDebugInfo_pop t w))"
    using assms by (rule world_inv_pop)
  then show ?thesis
    by (simp add: disableProfiler_def Let_def split_beta
        split: option.split sum.split)
qed

lemma disableProfiler_errors:
  assumes "world_inv w"
  shows "(\<exists>r. fst (disableProfiler stopped now t w) = Inr r) \<or>
         (\<exists>msg. fst (disableProfiler stopped now t w) = Inl (CheckFailed msg))"
proof (cases "fst (ThreadLocalDebugInfo_pop t w)")
  case None
  then show ?thesis by (simp add: disableProfiler_def split_beta)
next
  case (Some s)
  with assms have "state_inv s" by (rule world_inv_popped)
  then have "state_inv ((mark ''__stop_profile'' t s)
     \<lparr>cpu_trace := (cpu_trace (mark ''__stop_profile'' t s))\<lparr>span_endTime := now\<rparr>\<rparr>)"
    by (simp add: state_inv_span_endTime)
  then obtain s' where "finalizeCPUTrace ((mark ''__stop_profile'' t s)
     \<lparr>cpu_trace := (cpu_trace (mark ''__stop_profile'' t s))\<lparr>span_endTime := now\<rparr>\<rparr>) = Inr s'"
    using state_inv_finalize by blast
  with Some show ?thesis
    by (simp add: disableProfiler_def split_beta Let_def split: option.split)
qed

lemma step_inv: "world_inv w \<Longrightarrow> world_inv (step c w)"
  by (cases c)
    (simp_all add: enableProfiler_inv start_callback_inv end_callback_inv disableProfiler_inv)

lemma run_inv: "world_inv w \<Longrightarrow> world_inv (run calls w)"
  by (induction calls arbitrary: w) (simp_all add: step_inv)

lemma attach_metadata_empty_stack:
  "ke_stack e = Some [] \<Longrightarrow> attach_metadata e a = Inl UndefinedBehaviour"
  by (simp add: attach_metadata_def hasStack_def stacksToStr_empty Let_def)

lemma finalize_loop_empty_stack:
  "length evs = length acts \<Longrightarrow>
   \<exists>i. idx \<le> i \<and> i < length evs \<and> ke_stack (evs ! i) = Some [] \<Longrightarrow>
   finalize_loop idx evs acts = Inl UndefinedBehaviour"
proof (induction idx evs acts rule: finalize_loop.induct)
  case (1 idx evs acts)
  from "1.prems" obtain i where i: "idx \<le> i" "i < length evs" "ke_stack (evs ! i) = Some []"
    by blast
  with "1.prems" have lt: "idx < length acts" by simp
  show ?case
  proof (cases "ke_stack (evs ! idx) = Some []")
    case True
    then have "attach_metadata (evs ! idx) (acts ! idx) = Inl UndefinedBehaviour"
      by (rule attach_metadata_empty_stack)
    with lt show ?thesis
      by (subst finalize_loop.simps) simp
  next
    case False
    let ?act = "(acts ! idx)\<lparr>metadata := metadata (acts ! idx) @ expected_metadata (evs ! idx)\<rparr>"
    from False have att: "attach_metadata (evs ! idx) (acts ! idx) = Inr ?act"
      by (rule attach_metadata_ok)
    from False i have "idx \<noteq> i" by auto
    with i have "\<exists>i. idx + 1 \<le> i \<and> i < length evs \<and> ke_stack (evs ! i) = Some []"
      by (intro exI [of _ i]) simp
    with "1.IH" [OF lt att] "1.prems"(1)
    have "finalize_loop (idx + 1) evs (acts[idx := ?act]) = Inl UndefinedBehaviour"
      by simp
    with lt att show ?thesis
      by (subst finalize_loop.simps) simp
  qed
qed

lemma finalizeCPUTrace_empty_stack:
  assumes len: "length (activities (cpu_trace s)) = length (kineto_events s)"
    and e: "\<exists>e\<in>set (kineto_events s). ke_stack e = Some []"
  shows "finalizeCPUTrace s = Inl UndefinedBehaviour"
proof -
  from e obtain i where "i < length (kineto_events s)" "ke_stack (kineto_events s ! i) = Some []"
    by (auto simp: in_set_conv_nth)
  then have "\<exists>i. 0 \<le> i \<and> i < length (kineto_events s) \<and> ke_stack (kineto_events s ! i) = Some []"
    by blast
  with finalize_loop_empty_stack [OF len [symmetric], of 0]
  have "finalize_loop 0 (kineto_events s) (activities (cpu_trace s)) = Inl UndefinedBehaviour"
    by blast
  with len show ?thesis by (simp add: finalizeCPUTrace_def)
qed

subsection \<open>Finalizing the CPU trace\<close>

text \<open>
  C7. \<open>finalizeCPUTrace\<close> fails with the internal assertion when the trace buffer and the
  event sequence differ in length. When they agree and no event stores an empty stack, it
  returns the state with only the activities changed: the activity at each index keeps
  its fields and gets, appended to its metadata in this order, \<open>Input Dims\<close> with the
  serialized shapes exactly when the event at that index has shapes, \<open>Call stack\<close> with
  the stack entries joined by \<open>;\<close> exactly when it has a stack, \<open>Input type\<close> with the
  serialized type names exactly when it has types, and \<open>Fwd thread id\<close> and
  \<open>Sequence number\<close> exactly when its sequence number is not negative. The one case left,
  an event that stores an empty stack, is the undefined removal of \<open>stacksToStr\<close>;
  \<open>reportClientActivity\<close> never builds such an event.
\<close>

theorem finalizeCPUTrace_attaches_metadata:
  "(length (activities (cpu_trace s)) \<noteq> length (kineto_events s) \<longrightarrow>
      finalizeCPUTrace s =
        Inl (InternalAssertFailed ''cpu_trace->activities.size() == kineto_events_.size()'')) \<and>
   (length (activities (cpu_trace s)) = length (kineto_events s) \<longrightarrow>
    (\<exists>e\<in>set (kineto_events s). ke_stack e = Some []) \<longrightarrow>
      finalizeCPUTrace s = Inl UndefinedBehaviour) \<and>
   (length (activities (cpu_trace s)) = length (kineto_events s) \<longrightarrow>
    (\<forall>e\<in>set (kineto_events s). ke_stack e \<noteq> Some []) \<longrightarrow>
      (\<exists>acts. finalizeCPUTrace s = Inr (s\<lparr>cpu_trace := (cpu_trace s)\<lparr>activities := acts\<rparr>\<rparr>) \<and>
            length acts = length (kineto_events s) \<and>
            (\<forall>idx < length (kineto_events s).
               acts ! idx =
                 (activities (cpu_trace s) ! idx)
                   \<lparr>metadata := metadata (activities (cpu_trace s) ! idx) @
                      (if hasShapes (kineto_events s ! idx)
                       then [(''Input Dims'', shapesToStr (the (ke_shapes (kineto_events s ! idx))))]
                       else []) @
                      (if hasStack (kineto_events s ! idx)
                       then [(''Call stack'',
                              butlast (concat (map (\<lambda>s. s @ '';'')
                                                 (the (ke_stack (kineto_events s ! idx))))))]
                       else []) @
                      (if hasTypes (kineto_events s ! idx)
                       then [(''Input type'', dtypesToStr (the (ke_dtypes (kineto_events s ! idx))))]
                       else []) @
                      (if 0 \<le> sint (ke_sequence_nr (kineto_events s ! idx))
                       then [(''Fwd thread id'',
                              to_string_uint64 (ke_fwd_thread_id (kineto_events s ! idx))),
                             (''Sequence number'',
                              to_string_int64 (ke_sequence_nr (kineto_events s ! idx)))]
                       else [])\<rparr>)))"
proof (intro conjI impI)
  assume "length (activities (cpu_trace s)) \<noteq> length (kineto_events s)"
  then show "finalizeCPUTrace s =
        Inl (InternalAssertFailed ''cpu_trace->activities.size() == kineto_events_.size()'')"
    by (simp add: finalizeCPUTrace_def)
next
  assume "length (activities (cpu_trace s)) = length (kineto_events s)"
    and "\<exists>e\<in>set (kineto_events s). ke_stack e = Some []"
  then show "finalizeCPUTrace s = Inl UndefinedBehaviour"
    by (rule finalizeCPUTrace_empty_stack)
next
  assume len: "length (activities (cpu_trace s)) = length (kineto_events s)"
    and ne: "\<forall>e\<in>set (kineto_events s). ke_stack e \<noteq> Some []"
  let ?acts = "map (\<lambda>(e, a). a\<lparr>metadata := metadata a @ expected_metadata e\<rparr>)
                 (zip (kineto_events s) (activities (cpu_trace s)))"
  have fin: "finalizeCPUTrace s = Inr (s\<lparr>cpu_trace := (cpu_trace s)\<lparr>activities := ?acts\<rparr>\<rparr>)"
    using len ne by (rule finalizeCPUTrace_ok)
  have l: "length ?acts = length (kineto_events s)"
    using len by simp
  have n: "?acts ! idx = (activities (cpu_trace s) ! idx)
                   \<lparr>metadata := metadata (activities (cpu_trace s) ! idx) @
                                expected_metadata (kineto_events s ! idx)\<rparr>"
    if "idx < length (kineto_events s)" for idx
    using that len by simp
  show "\<exists>acts. finalizeCPUTrace s = Inr (s\<lparr>cpu_trace := (cpu_trace s)\<lparr>activities := acts\<rparr>\<rparr>) \<and>
            length acts = length (kineto_events s) \<and>
            (\<forall>idx < length (kineto_events s).
               acts ! idx =
                 (activities (cpu_trace s) ! idx)
                   \<lparr>metadata := metadata (activities (cpu_trace s) ! idx) @
                      (if hasShapes (kineto_events s ! idx)
                       then [(''Input Dims'', shapesToStr (the (ke_shapes (kineto_events s ! idx))))]
                       else []) @
                      (if hasStack (kineto_events s ! idx)
                       then [(''Call stack'',
                              butlast (concat (map (\<lambda>s. s @ '';'')
                                                 (the (ke_stack (kineto_events s ! idx))))))]
                       else []) @
                      (if hasTypes (kineto_events s ! idx)
                       then [(''Input type'', dtypesToStr (the (ke_dtypes (kineto_events s ! idx))))]
                       else []) @
                      (if 0 \<le> sint (ke_sequence_nr (kineto_events s ! idx))
                       then [(''Fwd thread id'',
                              to_string_uint64 (ke_fwd_thread_id (kineto_events s ! idx))),
                             (''Sequence number'',
                              to_string_int64 (ke_sequence_nr (kineto_events s ! idx)))]
                       else [])\<rparr>)"
    using fin l n unfolding expected_metadata_def by blast
qed

theorem finalizeCPUTrace_attaches_metadata_witness:
  "length (activities (cpu_trace unpaired_state)) \<noteq> length (kineto_events unpaired_state) \<and>
   finalizeCPUTrace unpaired_state =
     Inl (InternalAssertFailed ''cpu_trace->activities.size() == kineto_events_.size()'') \<and>
   length (activities (cpu_trace empty_stack_state)) = length (kineto_events empty_stack_state) \<and>
   map ke_stack (kineto_events empty_stack_state) = [Some []] \<and>
   finalizeCPUTrace empty_stack_state = Inl UndefinedBehaviour \<and>
   length (activities (cpu_trace example_state)) = length (kineto_events example_state) \<and>
   map ke_stack (kineto_events example_state) = [Some [''a.py(1): f'']] \<and>
   (\<exists>acts. finalizeCPUTrace example_state =
             Inr (example_state\<lparr>cpu_trace := (cpu_trace example_state)\<lparr>activities := acts\<rparr>\<rparr>) \<and>
           length acts = 1 \<and>
           map fst (metadata (acts ! 0)) =
             [''Input Dims'', ''Call stack'', ''Input type'', ''Fwd thread id'',
              ''Sequence number''])"
proof -
  have u: "length (activities (cpu_trace unpaired_state)) \<noteq> length (kineto_events unpaired_state)"
    by code_simp
  have p: "length (activities (cpu_trace example_state)) = length (kineto_events example_state)"
    by code_simp
  have st: "map ke_stack (kineto_events example_state) = [Some [''a.py(1): f'']]"
    by code_simp
  have n: "\<forall>e\<in>set (kineto_events example_state). ke_stack e \<noteq> Some []"
    by code_simp
  have l: "length (kineto_events example_state) = 1"
    by code_simp
  have v: "hasShapes (kineto_events example_state ! 0) \<and> hasStack (kineto_events example_state ! 0)
     \<and> hasTypes (kineto_events example_state ! 0)
     \<and> 0 \<le> sint (ke_sequence_nr (kineto_events example_state ! 0))"
    by code_simp
  from finalizeCPUTrace_attaches_metadata [of unpaired_state] u
  have a: "finalizeCPUTrace unpaired_state =
     Inl (InternalAssertFailed ''cpu_trace->activities.size() == kineto_events_.size()'')"
    by blast
  have ep: "length (activities (cpu_trace empty_stack_state)) = length (kineto_events empty_stack_state)"
    by code_simp
  have est: "map ke_stack (kineto_events empty_stack_state) = [Some []]"
    by code_simp
  have en: "\<exists>e\<in>set (kineto_events empty_stack_state). ke_stack e = Some []"
    by code_simp
  from finalizeCPUTrace_attaches_metadata [of empty_stack_state] ep en
  have ub: "finalizeCPUTrace empty_stack_state = Inl UndefinedBehaviour"
    by blast
  from finalizeCPUTrace_attaches_metadata [of example_state] p n l obtain acts where acts:
    "finalizeCPUTrace example_state =
       Inr (example_state\<lparr>cpu_trace := (cpu_trace example_state)\<lparr>activities := acts\<rparr>\<rparr>)"
    "length acts = 1"
    "acts ! 0 =
       (activities (cpu_trace example_state) ! 0)
         \<lparr>metadata := metadata (activities (cpu_trace example_state) ! 0) @
            (if hasShapes (kineto_events example_state ! 0)
             then [(''Input Dims'', shapesToStr (the (ke_shapes (kineto_events example_state ! 0))))]
             else []) @
            (if hasStack (kineto_events example_state ! 0)
             then [(''Call stack'',
                    butlast (concat (map (\<lambda>s. s @ '';'')
                                       (the (ke_stack (kineto_events example_state ! 0))))))]
             else []) @
            (if hasTypes (kineto_events example_state ! 0)
             then [(''Input type'', dtypesToStr (the (ke_dtypes (kineto_events example_state ! 0))))]
             else []) @
            (if 0 \<le> sint (ke_sequence_nr (kineto_events example_state ! 0))
             then [(''Fwd thread id'',
                    to_string_uint64 (ke_fwd_thread_id (kineto_events example_state ! 0))),
                   (''Sequence number'',
                    to_string_int64 (ke_sequence_nr (kineto_events example_state ! 0)))]
             else [])\<rparr>"
    by auto
  have m0: "metadata (activities (cpu_trace example_state) ! 0) = []"
    by code_simp
  from acts(3) v m0 have m: "map fst (metadata (acts ! 0)) =
             [''Input Dims'', ''Call stack'', ''Input type'', ''Fwd thread id'',
              ''Sequence number'']"
    by simp
  show ?thesis
    by (intro conjI exI [of _ acts]) (rule u a ep est ub p st acts(1) acts(2) m)+
qed

subsection \<open>The unguarded removal in \<open>stacksToStr\<close>\<close>

text \<open>
  C10. \<open>stacksToStr\<close> on the empty list runs \<^verbatim>\<open>pop_back\<close> on an empty string, which is
  undefined. \<open>reportClientActivity\<close> stores a stack on the event it appends exactly when
  the captured stack is present and not empty. So in every state that any list of calls
  of the session interface reaches from the initial state, each event with a stored stack
  has a non-empty one, on which \<open>stacksToStr\<close> returns a string, and \<open>disableProfiler\<close>,
  the only caller of \<open>finalizeCPUTrace\<close>, never ends in the undefined removal.
\<close>

theorem stacksToStr_error_unreachable:
  "stacksToStr [] = Inl UndefinedBehaviour \<and>
   (hasStack (last (kineto_events (fst (reportClientActivity fn (Some ctx) now' t' sk)))) \<longleftrightarrow>
      (\<exists>v. stack ctx = Some v \<and> v \<noteq> [])) \<and>
   (\<forall>s\<in>set (debug_info (run calls initial_World) t). \<forall>e\<in>set (kineto_events s).
      hasStack e \<longrightarrow>
        the (ke_stack e) \<noteq> [] \<and> (\<exists>str. stacksToStr (the (ke_stack e)) = Inr str)) \<and>
   fst (disableProfiler stopped now t (run calls initial_World)) \<noteq> Inl UndefinedBehaviour"
proof (intro conjI ballI impI)
  show "stacksToStr [] = Inl UndefinedBehaviour"
    by (rule stacksToStr_empty)
next
  obtain e where e:
    "kineto_events (fst (reportClientActivity fn (Some ctx) now' t' sk)) =
       kineto_events (fst sk) @ [e]"
    "ke_stack e = (case stack ctx of
                     Some v \<Rightarrow> if v \<noteq> [] then Some v else None
                   | None \<Rightarrow> None)"
    using reportClientActivity_events [of fn ctx now' t' sk] by blast
  show "hasStack (last (kineto_events (fst (reportClientActivity fn (Some ctx) now' t' sk)))) \<longleftrightarrow>
      (\<exists>v. stack ctx = Some v \<and> v \<noteq> [])"
    unfolding e(1) using e(2) by (simp add: hasStack_def split: option.split)
next
  have inv: "world_inv (run calls initial_World)"
    using world_inv_initial by (rule run_inv)
  {
    fix s e
    assume s: "s \<in> set (debug_info (run calls initial_World) t)"
      and e: "e \<in> set (kineto_events s)" and h: "hasStack e"
    from inv s have "state_inv s" by (simp add: world_inv_def)
    with e have "ke_stack e \<noteq> Some []" by (simp add: state_inv_def)
    with h obtain v where v: "ke_stack e = Some v" "v \<noteq> []"
      by (auto simp: hasStack_def)
    then show "the (ke_stack e) \<noteq> []" by simp
    from v show "\<exists>str. stacksToStr (the (ke_stack e)) = Inr str"
      by (simp add: stacksToStr_nonempty)
  }
  from disableProfiler_errors [OF inv, of stopped now t]
  show "fst (disableProfiler stopped now t (run calls initial_World)) \<noteq> Inl UndefinedBehaviour"
    by auto
qed

theorem stacksToStr_error_unreachable_witness:
  "length (debug_info (run example_calls initial_World) 0) = 1 \<and>
   length (kineto_events (hd (debug_info (run example_calls initial_World) 0))) = 1 \<and>
   hasStack (hd (kineto_events (hd (debug_info (run example_calls initial_World) 0)))) \<and>
   the (ke_stack (hd (kineto_events (hd (debug_info (run example_calls initial_World) 0))))) \<noteq> [] \<and>
   (\<exists>str. stacksToStr
            (the (ke_stack (hd (kineto_events (hd (debug_info (run example_calls initial_World) 0))))))
          = Inr str) \<and>
   fst (disableProfiler (Some []) 13 0 (run example_calls initial_World)) \<noteq>
     Inl UndefinedBehaviour"
proof -
  let ?s = "hd (debug_info (run example_calls initial_World) 0)"
  let ?e = "hd (kineto_events ?s)"
  have l1: "length (debug_info (run example_calls initial_World) 0) = 1"
    by code_simp
  have l2: "length (kineto_events ?s) = 1"
    by code_simp
  have h: "hasStack ?e"
    by code_simp
  from l1 have s: "?s \<in> set (debug_info (run example_calls initial_World) 0)"
    by (cases "debug_info (run example_calls initial_World) 0") simp_all
  from l2 have e: "?e \<in> set (kineto_events ?s)"
    by (cases "kineto_events ?s") simp_all
  note inst = stacksToStr_error_unreachable
    [where calls = example_calls and t = 0 and stopped = "Some []" and now = 13]
  from inst have "\<forall>s\<in>set (debug_info (run example_calls initial_World) 0).
      \<forall>e\<in>set (kineto_events s).
      hasStack e \<longrightarrow>
        the (ke_stack e) \<noteq> [] \<and> (\<exists>str. stacksToStr (the (ke_stack e)) = Inr str)"
    by (rule conjunct1 [OF conjunct2 [OF conjunct2]])
  with s e h have a: "the (ke_stack ?e) \<noteq> [] \<and> (\<exists>str. stacksToStr (the (ke_stack ?e)) = Inr str)"
    by blast
  from inst have b: "fst (disableProfiler (Some []) 13 0 (run example_calls initial_World)) \<noteq>
     Inl UndefinedBehaviour"
    by (rule conjunct2 [OF conjunct2 [OF conjunct2]])
  show ?thesis
    by (intro conjI) (rule l1 l2 h conjunct1 [OF a] conjunct2 [OF a] b)+
qed

subsection \<open>The correlation id generator\<close>

lemma next_correlation_ids_nth:
  "length (fst (next_correlation_ids n w)) = n \<and>
   (\<forall>i < n. fst (next_correlation_ids n w) ! i = corr_id w + of_nat i) \<and>
   snd (next_correlation_ids n w) = w\<lparr>corr_id := corr_id w + of_nat n\<rparr>"
proof (induction n arbitrary: w)
  case 0
  show ?case by simp
next
  case (Suc n)
  let ?w1 = "w\<lparr>corr_id := corr_id w + 1\<rparr>"
  note ih = Suc.IH [of ?w1]
  have unf: "next_correlation_ids (Suc n) w =
     (corr_id w # fst (next_correlation_ids n ?w1), snd (next_correlation_ids n ?w1))"
    by (simp add: next_correlation_id_def split_beta)
  show ?case
  proof (intro conjI allI impI)
    show "length (fst (next_correlation_ids (Suc n) w)) = Suc n"
      using ih unf by simp
    show "snd (next_correlation_ids (Suc n) w) = w\<lparr>corr_id := corr_id w + of_nat (Suc n)\<rparr>"
      using ih unf by (simp add: add.assoc)
  next
    fix i assume "i < Suc n"
    then show "fst (next_correlation_ids (Suc n) w) ! i = corr_id w + of_nat i"
      using ih unf by (cases i) (simp_all add: add.assoc)
  qed
qed


lemma word64_of_nat_less:
  assumes "i < j" and "j < 2 ^ 64"
  shows "(of_nat i :: 64 word) < of_nat j"
  using assms by (simp add: of_nat_word_less_iff take_bit_nat_eq_self)

lemma next_correlation_ids_from_1:
  assumes "corr_id w = 1"
  shows "fst (next_correlation_ids n w) = map of_nat [1..<Suc n]"
proof (rule nth_equalityI)
  show "length (fst (next_correlation_ids n w)) = length (map of_nat [1..<Suc n] :: 64 word list)"
    using next_correlation_ids_nth [of n w] by simp
next
  fix i assume "i < length (fst (next_correlation_ids n w))"
  then have i: "i < n" using next_correlation_ids_nth [of n w] by simp
  then have "fst (next_correlation_ids n w) ! i = 1 + of_nat i"
    using next_correlation_ids_nth [of n w] assms by simp
  also from i have "\<dots> = map of_nat [1..<Suc n] ! i"
    by (simp add: nth_map_upt del: upt_Suc)
  finally show "fst (next_correlation_ids n w) ! i = map of_nat [1..<Suc n] ! i" .
qed

lemma sorted_ids:
  assumes "n < 2 ^ 64"
  shows "sorted_wrt (<) (map of_nat [1..<Suc n] :: 64 word list)"
proof -
  have "(of_nat ([1..<Suc n] ! i) :: 64 word) < of_nat ([1..<Suc n] ! j)"
    if "i < j" "j < n" for i j
  proof -
    from that have "[1..<Suc n] ! i = Suc i" "[1..<Suc n] ! j = Suc j"
      by (simp_all del: upt_Suc)
    moreover from that assms have "Suc i < Suc j" "Suc j < 2 ^ 64" by simp_all
    ultimately show ?thesis by (simp add: word64_of_nat_less del: of_nat_Suc)
  qed
  then show ?thesis
    by (simp add: sorted_wrt_iff_nth_less del: upt_Suc)
qed

lemma sorted_less_distinct: "sorted_wrt (<) (xs :: 64 word list) \<Longrightarrow> distinct xs"
  by (induction xs) auto

text \<open>
  C4 as stated, for any number of calls, fails at the wrap of the 64-bit counter: of
  \<open>2\<^sup>6\<^sup>4\<close> successive calls from the initial state the last returns \<open>0\<close>, after
  \<open>2\<^sup>6\<^sup>4 - 1\<close>.
\<close>

theorem next_correlation_id_wraps_counterexample:
  "\<not> sorted_wrt (<) (fst (next_correlation_ids (2 ^ 64) initial_World))"
proof
  assume "sorted_wrt (<) (fst (next_correlation_ids (2 ^ 64) initial_World))"
  moreover have l: "length (fst (next_correlation_ids (2 ^ 64) initial_World)) = 2 ^ 64"
    using next_correlation_ids_nth [of "2 ^ 64" initial_World] by simp
  ultimately have "fst (next_correlation_ids (2 ^ 64) initial_World) ! 18446744073709551614
      < fst (next_correlation_ids (2 ^ 64) initial_World) ! 18446744073709551615"
    by (simp add: sorted_wrt_iff_nth_less)
  moreover have "fst (next_correlation_ids (2 ^ 64) initial_World) ! 18446744073709551614
      = (- 1 :: 64 word)"
    using next_correlation_ids_nth [of "2 ^ 64" initial_World]
    by (simp add: initial_World_def)
  moreover have "fst (next_correlation_ids (2 ^ 64) initial_World) ! 18446744073709551615
      = (0 :: 64 word)"
    using next_correlation_ids_nth [of "2 ^ 64" initial_World]
    by (simp add: initial_World_def)
  ultimately show False by simp
qed

text \<open>
  C4, as the generator is. The counter starts at 1; a call returns the counter and adds one
  to it, and changes nothing else. From a state where the counter is 1, any number
  \<open>n < 2\<^sup>6\<^sup>4\<close> of successive calls returns \<open>1, 2, \<dots>, n\<close>: strictly increasing in the
  order of issue and pairwise distinct, leaving the counter at \<open>n + 1\<close> (which is \<open>0\<close>
  after \<open>2\<^sup>6\<^sup>4 - 1\<close> calls).
\<close>

theorem next_correlation_id_increasing_below_wrap:
  "corr_id initial_World = 1 \<and>
   next_correlation_id w = (corr_id w, w\<lparr>corr_id := corr_id w + 1\<rparr>) \<and>
   (corr_id w = 1 \<longrightarrow> n < 2 ^ 64 \<longrightarrow>
      fst (next_correlation_ids n w) = map of_nat [1..<Suc n] \<and>
      sorted_wrt (<) (fst (next_correlation_ids n w)) \<and>
      distinct (fst (next_correlation_ids n w)) \<and>
      snd (next_correlation_ids n w) = w\<lparr>corr_id := 1 + of_nat n\<rparr>)"
proof (intro conjI impI)
  show "corr_id initial_World = 1" by (simp add: initial_World_def)
  show "next_correlation_id w = (corr_id w, w\<lparr>corr_id := corr_id w + 1\<rparr>)"
    by (simp add: next_correlation_id_def)
next
  assume c: "corr_id w = 1" and n: "n < 2 ^ 64"
  show ids: "fst (next_correlation_ids n w) = map of_nat [1..<Suc n]"
    using c by (rule next_correlation_ids_from_1)
  show s: "sorted_wrt (<) (fst (next_correlation_ids n w))"
    unfolding ids using n by (rule sorted_ids)
  then show "distinct (fst (next_correlation_ids n w))"
    by (rule sorted_less_distinct)
  show "snd (next_correlation_ids n w) = w\<lparr>corr_id := 1 + of_nat n\<rparr>"
    using next_correlation_ids_nth [of n w] c by simp
qed

theorem next_correlation_id_increasing_below_wrap_witness:
  "corr_id initial_World = 1 \<and> (3::nat) < 2 ^ 64 \<and>
   fst (next_correlation_ids 3 initial_World) = [1, 2, 3] \<and>
   sorted_wrt (<) (fst (next_correlation_ids 3 initial_World)) \<and>
   distinct (fst (next_correlation_ids 3 initial_World)) \<and>
   corr_id (snd (next_correlation_ids 3 initial_World)) = 4"
  using next_correlation_id_increasing_below_wrap [of initial_World 3]
  by (simp add: upt_rec)

subsection \<open>Saving a result\<close>

text \<open>
  C8. A result is built unsaved. On an unsaved result \<open>save\<close> runs the collector's save
  and, when that returns, marks the result saved. On a saved result \<open>save\<close> fails with
  the checked error before the collector is called: the result, its trace and the files
  are returned as they were. So after any successful \<open>save\<close> every further \<open>save\<close> on
  the result fails and leaves the files of the first call alone.
\<close>

theorem save_at_most_once:
  "\<not> pr_saved (ProfilerResult_ctor events legacy_events trace) \<and>
   (\<not> pr_saved r \<longrightarrow> trace_save (pr_trace r) path files = (True, trace', files') \<longrightarrow>
      save trace_save path r files = (Inr (), r\<lparr>pr_trace := trace', pr_saved := True\<rparr>, files')) \<and>
   (pr_saved r \<longrightarrow>
      save trace_save path r files = (Inl (CheckFailed ''Trace is already saved''), r, files)) \<and>
   (save trace_save path r files = (Inr (), r_after, files_after) \<longrightarrow>
      \<not> pr_saved r \<and> pr_saved r_after \<and>
      save trace_save path_again r_after files_again =
        (Inl (CheckFailed ''Trace is already saved''), r_after, files_again))"
  by (auto simp: save_def ProfilerResult_ctor_def split: prod.splits if_splits)

theorem save_at_most_once_witness:
  "\<not> pr_saved (ProfilerResult_ctor [] [] [TraceActivity ''kernel'' 0 1 20 3 99 GPU_MEMCPY None]) \<and>
   save example_trace_save ''a.json''
     (ProfilerResult_ctor [] [] [TraceActivity ''kernel'' 0 1 20 3 99 GPU_MEMCPY None]) [] =
     (Inr (),
      \<lparr>pr_events = [], pr_legacy_events = [], pr_trace = [], pr_saved = True\<rparr>,
      [(''a.json'', [TraceActivity ''kernel'' 0 1 20 3 99 GPU_MEMCPY None])]) \<and>
   save example_trace_save ''b.json''
     \<lparr>pr_events = [], pr_legacy_events = [], pr_trace = [], pr_saved = True\<rparr>
     [(''a.json'', [TraceActivity ''kernel'' 0 1 20 3 99 GPU_MEMCPY None])] =
     (Inl (CheckFailed ''Trace is already saved''),
      \<lparr>pr_events = [], pr_legacy_events = [], pr_trace = [], pr_saved = True\<rparr>,
      [(''a.json'', [TraceActivity ''kernel'' 0 1 20 3 99 GPU_MEMCPY None])])"
proof -
  let ?k = "TraceActivity ''kernel'' 0 1 20 3 99 GPU_MEMCPY None"
  let ?saved = "\<lparr>pr_events = [], pr_legacy_events = [], pr_trace = [], pr_saved = True\<rparr>"
  have first: "save example_trace_save ''a.json'' (ProfilerResult_ctor [] [] [?k]) [] =
      (Inr (), ?saved, [(''a.json'', [?k])])"
    by (simp add: save_def example_trace_save_def ProfilerResult_ctor_def)
  note inst = save_at_most_once
    [where events = "[]" and legacy_events = "[]" and trace = "[?k]"
       and r = "ProfilerResult_ctor [] [] [?k]" and trace_save = example_trace_save
       and path = "''a.json''" and files = "[]" and r_after = ?saved
       and files_after = "[(''a.json'', [?k])]" and path_again = "''b.json''"
       and files_again = "[(''a.json'', [?k])]"]
  from inst have a: "\<not> pr_saved (ProfilerResult_ctor [] [] [?k])"
    by (rule conjunct1)
  from inst first
  have b: "save example_trace_save ''b.json'' ?saved [(''a.json'', [?k])] =
      (Inl (CheckFailed ''Trace is already saved''), ?saved, [(''a.json'', [?k])])"
    by blast
  show ?thesis
    by (intro conjI) (rule a first b)+
qed

subsection \<open>Starting a session\<close>

lemma getProfilerTLSState_fresh:
  "getProfilerTLSState t
     (update_active_state t f (ThreadLocalDebugInfo_push t s w)) = Some (f s)"
  by (simp add: getProfilerTLSState_def ThreadLocalDebugInfo_get_def ThreadLocalDebugInfo_push_def
      update_active_state_def)

text \<open>
  C2. \<open>enableProfiler\<close> fails with a checked error when the configuration's state is not
  \<open>KINETO\<close>, when the set of activities is empty, or when a profiling state is already
  active on the calling thread, and in each case returns the process state it was given:
  nothing is published and the active state, if any, is as it was. With a \<open>KINETO\<close>
  configuration and activities, an already active state gives the error
  \<^verbatim>\<open>Profiler is already enabled on this thread\<close>; with no active state the call
  succeeds.
\<close>

theorem enableProfiler_usage_errors:
  "(state cfg \<noteq> KINETO \<or> acts = {} \<or> getProfilerTLSState t w \<noteq> None \<longrightarrow>
      (\<exists>msg. enableProfiler cfg acts now t w = (Inl (CheckFailed msg), w))) \<and>
   (state cfg = KINETO \<longrightarrow> acts \<noteq> {} \<longrightarrow> getProfilerTLSState t w \<noteq> None \<longrightarrow>
      enableProfiler cfg acts now t w =
        (Inl (CheckFailed ''Profiler is already enabled on this thread''), w)) \<and>
   (state cfg = KINETO \<longrightarrow> acts \<noteq> {} \<longrightarrow> getProfilerTLSState t w = None \<longrightarrow>
      fst (enableProfiler cfg acts now t w) = Inr ())"
  by (simp add: enableProfiler_def Let_def pushProfilingCallbacks_def getProfilerTLSState_fresh
      split_beta)

theorem enableProfiler_usage_errors_witness:
  "getProfilerTLSState 0 enabled_World \<noteq> None \<and>
   enableProfiler example_config {ActivityType_CUDA} 20 0 enabled_World =
     (Inl (CheckFailed ''Profiler is already enabled on this thread''), enabled_World) \<and>
   (\<exists>msg. enableProfiler example_config {} 20 1 enabled_World =
            (Inl (CheckFailed msg), enabled_World)) \<and>
   fst (enableProfiler example_config {ActivityType_CPU} 20 1 enabled_World) = Inr ()"
proof -
  have active: "getProfilerTLSState 0 enabled_World \<noteq> None"
    by code_simp
  have idle: "getProfilerTLSState 1 enabled_World = None"
    by code_simp
  have cfg: "state example_config = KINETO"
    by (simp add: example_config_def)
  have a: "enableProfiler example_config {ActivityType_CUDA} 20 0 enabled_World =
     (Inl (CheckFailed ''Profiler is already enabled on this thread''), enabled_World)"
    using enableProfiler_usage_errors
      [where cfg = example_config and acts = "{ActivityType_CUDA}" and t = 0
         and w = enabled_World and now = 20]
      active cfg
    by simp
  have b: "\<exists>msg. enableProfiler example_config {} 20 1 enabled_World =
            (Inl (CheckFailed msg), enabled_World)"
    using enableProfiler_usage_errors
      [where cfg = example_config and acts = "{}" and t = 1 and w = enabled_World and now = 20]
    by simp
  have c: "fst (enableProfiler example_config {ActivityType_CPU} 20 1 enabled_World) = Inr ()"
    using enableProfiler_usage_errors
      [where cfg = example_config and acts = "{ActivityType_CPU}" and t = 1
         and w = enabled_World and now = 20]
      idle cfg
    by simp
  show ?thesis
    by (intro conjI) (rule active a b c)+
qed

subsection \<open>Stopping a session that is not running\<close>

text \<open>
  C1 as stated fails where a state that is not of kind \<open>KINETO\<close> is active: the state is
  popped before it is checked, so the call fails with the checked error and the thread is
  left without its profiling state.
\<close>

theorem disableProfiler_pops_before_check_counterexample:
  "getProfilerTLSState 0 legacy_World =
     Some (KinetoThreadLocalState_ctor (example_config\<lparr>state := CPU\<rparr>)) \<and>
   fst (disableProfiler None 0 0 legacy_World) =
     Inl (CheckFailed ''Can't disable Kineto profiler when it's not running'') \<and>
   getProfilerTLSState 0 (snd (disableProfiler None 0 0 legacy_World)) = None"
  by code_simp

text \<open>
  C1, as \<open>disableProfiler\<close> is. With no active state on the calling thread it fails with a
  checked error and returns the process state it was given. With an active state that is
  not of kind \<open>KINETO\<close> it fails with the checked error
  \<^verbatim>\<open>Can't disable Kineto profiler when it's not running\<close>, and the process state differs
  from the one given only in that this state has been popped from the calling thread. In
  both cases the states of all other threads, the callbacks, the counters and the
  collector are as they were.
\<close>

theorem disableProfiler_not_running:
  "(getProfilerTLSState t w = None \<longrightarrow>
      (\<exists>msg. disableProfiler stopped now t w = (Inl (CheckFailed msg), w))) \<and>
   (getProfilerTLSState t w = Some s \<longrightarrow> state (config s) \<noteq> KINETO \<longrightarrow>
      disableProfiler stopped now t w =
        (Inl (CheckFailed ''Can't disable Kineto profiler when it's not running''),
         w\<lparr>debug_info := (debug_info w)(t := tl (debug_info w t))\<rparr>)) \<and>
   (getProfilerTLSState t w = None \<or>
    (\<exists>s. getProfilerTLSState t w = Some s \<and> state (config s) \<noteq> KINETO) \<longrightarrow>
      (\<forall>t'. t' \<noteq> t \<longrightarrow>
         debug_info (snd (disableProfiler stopped now t w)) t' = debug_info w t') \<and>
      tl_callbacks (snd (disableProfiler stopped now t w)) = tl_callbacks w \<and>
      next_callback_handle (snd (disableProfiler stopped now t w)) = next_callback_handle w \<and>
      corr_id (snd (disableProfiler stopped now t w)) = corr_id w \<and>
      kineto (snd (disableProfiler stopped now t w)) = kineto w)"
  by (auto simp: disableProfiler_def getProfilerTLSState_def ThreadLocalDebugInfo_get_def
      ThreadLocalDebugInfo_pop_def split: list.splits)

theorem disableProfiler_not_running_witness:
  "getProfilerTLSState 0 initial_World = None \<and>
   (\<exists>msg. disableProfiler None 0 0 initial_World = (Inl (CheckFailed msg), initial_World)) \<and>
   getProfilerTLSState 0 legacy_World =
     Some (KinetoThreadLocalState_ctor (example_config\<lparr>state := CPU\<rparr>)) \<and>
   state (config (KinetoThreadLocalState_ctor (example_config\<lparr>state := CPU\<rparr>))) \<noteq> KINETO \<and>
   disableProfiler None 0 0 legacy_World =
     (Inl (CheckFailed ''Can't disable Kineto profiler when it's not running''),
      legacy_World\<lparr>debug_info := (debug_info legacy_World)(0 := tl (debug_info legacy_World 0))\<rparr>) \<and>
   debug_info (snd (disableProfiler None 0 0 legacy_World)) 1 = debug_info legacy_World 1"
proof -
  have none: "getProfilerTLSState 0 initial_World = None"
    by code_simp
  have legacy: "getProfilerTLSState 0 legacy_World =
     Some (KinetoThreadLocalState_ctor (example_config\<lparr>state := CPU\<rparr>))"
    by code_simp
  have kind: "state (config (KinetoThreadLocalState_ctor (example_config\<lparr>state := CPU\<rparr>))) \<noteq> KINETO"
    by code_simp
  have a: "\<exists>msg. disableProfiler None 0 0 initial_World = (Inl (CheckFailed msg), initial_World)"
    using disableProfiler_not_running
      [where t = 0 and w = initial_World and stopped = None and now = 0]
      none
    by simp
  note inst = disableProfiler_not_running
      [where t = 0 and w = legacy_World and stopped = None and now = 0
         and s = "KinetoThreadLocalState_ctor (example_config\<lparr>state := CPU\<rparr>)"]
  have b: "disableProfiler None 0 0 legacy_World =
     (Inl (CheckFailed ''Can't disable Kineto profiler when it's not running''),
      legacy_World\<lparr>debug_info := (debug_info legacy_World)(0 := tl (debug_info legacy_World 0))\<rparr>)"
    using inst legacy kind by simp
  have c: "debug_info (snd (disableProfiler None 0 0 legacy_World)) 1 = debug_info legacy_World 1"
    using inst legacy kind by simp
  show ?thesis
    by (intro conjI) (rule none a legacy kind b c)+
qed

subsection \<open>The end callback when profiling is off\<close>

text \<open>
  C3 as stated fails for the no-op context: the end callback tests the active state, not
  the context. On a thread with a running Kineto session and one operation started
  (correlation id 1 pushed), the end callback given the context of the start callback's
  disabled path records an event and an activity and pops the correlation id.
\<close>

theorem end_callback_records_sentinel_counterexample:
  "fst (start_callback example_fn 9 0 initial_World) = KinetoObserverContext_ctor \<and>
   length (debug_info outer_started_World 0) = 1 \<and>
   kineto_events (hd (debug_info outer_started_World 0)) = [] \<and>
   activities (cpu_trace (hd (debug_info outer_started_World 0))) = [] \<and>
   correlation_ids (kineto outer_started_World) 0 = [1] \<and>
   fst (end_callback example_fn (Some KinetoObserverContext_ctor) 12 0 outer_started_World) =
     Inr () \<and>
   length (debug_info sentinel_ended_World 0) = 1 \<and>
   length (kineto_events (hd (debug_info sentinel_ended_World 0))) = 1 \<and>
   length (activities (cpu_trace (hd (debug_info sentinel_ended_World 0)))) = 1 \<and>
   correlation_ids (kineto sentinel_ended_World) 0 = []"
  by code_simp

text \<open>
  C3, as the end callback is. When there is no active profiling state on the thread, or
  the active state is not of kind \<open>KINETO\<close>, the end callback returns at once, whatever
  context it is given: the context and the process state are as they were (nothing is
  recorded, nothing appended to the buffer, no correlation id popped). Under the same
  condition the start callback takes its disabled path: it returns the no-op context and
  the process state as it was.
\<close>

theorem end_callback_inactive_no_effect:
  "getProfilerTLSState t w = None \<or>
   (\<exists>s. getProfilerTLSState t w = Some s \<and> state (config s) \<noteq> KINETO) \<longrightarrow>
     end_callback fn ctx_ptr now t w = (Inr (), ctx_ptr, w) \<and>
     start_callback fn now' t w = (KinetoObserverContext_ctor, w)"
  by (auto simp: end_callback_def start_callback_def)

theorem end_callback_inactive_no_effect_witness:
  "getProfilerTLSState 0 initial_World = None \<and>
   end_callback example_fn (Some example_ctx) 12 0 initial_World =
     (Inr (), Some example_ctx, initial_World) \<and>
   (\<exists>s. getProfilerTLSState 0 legacy_World = Some s \<and> state (config s) \<noteq> KINETO) \<and>
   end_callback example_fn (Some KinetoObserverContext_ctor) 12 0 legacy_World =
     (Inr (), Some KinetoObserverContext_ctor, legacy_World) \<and>
   start_callback example_fn 11 0 legacy_World = (KinetoObserverContext_ctor, legacy_World)"
proof -
  have none: "getProfilerTLSState 0 initial_World = None"
    by code_simp
  have "getProfilerTLSState 0 legacy_World =
     Some (KinetoThreadLocalState_ctor (example_config\<lparr>state := CPU\<rparr>))"
    by code_simp
  moreover
  have "state (config (KinetoThreadLocalState_ctor (example_config\<lparr>state := CPU\<rparr>))) \<noteq> KINETO"
    by code_simp
  ultimately
  have legacy: "\<exists>s. getProfilerTLSState 0 legacy_World = Some s \<and> state (config s) \<noteq> KINETO"
    by blast
  have a: "end_callback example_fn (Some example_ctx) 12 0 initial_World =
     (Inr (), Some example_ctx, initial_World)"
    using end_callback_inactive_no_effect
      [where t = 0 and w = initial_World and fn = example_fn and ctx_ptr = "Some example_ctx"
         and now = 12]
      none
    by simp
  have b: "end_callback example_fn (Some KinetoObserverContext_ctor) 12 0 legacy_World =
     (Inr (), Some KinetoObserverContext_ctor, legacy_World) \<and>
   start_callback example_fn 11 0 legacy_World = (KinetoObserverContext_ctor, legacy_World)"
    using end_callback_inactive_no_effect
      [where t = 0 and w = legacy_World and fn = example_fn
         and ctx_ptr = "Some KinetoObserverContext_ctor" and now = 12 and now' = 11]
      legacy
    by blast
  show ?thesis
    by (intro conjI) (rule none a legacy conjunct1 [OF b] conjunct2 [OF b])+
qed

end
